theory Spec2Isabelle
  imports Main
begin

section \<open>JavaScript strings\<close>

text \<open>
  A JavaScript string is modelled as a \<open>string\<close>: a list of 8-bit code units. The
  functions below are the \<open>String.prototype\<close> methods the program calls, with the
  argument order of the method call: \<open>js_includes s t\<close> is \<open>s.includes(t)\<close>.
\<close>

fun js_startsWith :: "string \<Rightarrow> string \<Rightarrow> bool" where
  "js_startsWith s [] = True"
| "js_startsWith [] (c # t) = False"
| "js_startsWith (a # s) (c # t) = (a = c \<and> js_startsWith s t)"

fun js_includes :: "string \<Rightarrow> string \<Rightarrow> bool" where
  "js_includes [] t = (t = [])"
| "js_includes (a # s) t = (js_startsWith (a # s) t \<or> js_includes s t)"

definition js_endsWith :: "string \<Rightarrow> string \<Rightarrow> bool" where
  "js_endsWith s t = js_startsWith (rev s) (rev t)"

text \<open>
  \<open>s.substring(a, b)\<close> for indices that are not negative: the two are swapped when
  \<open>a > b\<close>, and cut at the length of \<open>s\<close> (as \<open>take\<close> and \<open>drop\<close> do).
\<close>

definition js_substring :: "string \<Rightarrow> nat \<Rightarrow> nat \<Rightarrow> string" where
  "js_substring s a b = take (max a b - min a b) (drop (min a b) s)"

text \<open>
  \<open>s.toLowerCase()\<close> on 8-bit code units: the letters \<open>A\<close> to \<open>Z\<close> and the Latin-1
  capitals \<open>0xC0\<close> to \<open>0xDE\<close> (without \<open>0xD7\<close>, the multiplication sign) move to
  their small letters; every other unit stays.
\<close>

definition upper_units :: string where
  "upper_units = ''ABCDEFGHIJKLMNOPQRSTUVWXYZ'' @
     [CHR 0xC0, CHR 0xC1, CHR 0xC2, CHR 0xC3, CHR 0xC4, CHR 0xC5, CHR 0xC6, CHR 0xC7,
      CHR 0xC8, CHR 0xC9, CHR 0xCA, CHR 0xCB, CHR 0xCC, CHR 0xCD, CHR 0xCE, CHR 0xCF,
      CHR 0xD0, CHR 0xD1, CHR 0xD2, CHR 0xD3, CHR 0xD4, CHR 0xD5, CHR 0xD6,
      CHR 0xD8, CHR 0xD9, CHR 0xDA, CHR 0xDB, CHR 0xDC, CHR 0xDD, CHR 0xDE]"

definition lower_units :: string where
  "lower_units = ''abcdefghijklmnopqrstuvwxyz'' @
     [CHR 0xE0, CHR 0xE1, CHR 0xE2, CHR 0xE3, CHR 0xE4, CHR 0xE5, CHR 0xE6, CHR 0xE7,
      CHR 0xE8, CHR 0xE9, CHR 0xEA, CHR 0xEB, CHR 0xEC, CHR 0xED, CHR 0xEE, CHR 0xEF,
      CHR 0xF0, CHR 0xF1, CHR 0xF2, CHR 0xF3, CHR 0xF4, CHR 0xF5, CHR 0xF6,
      CHR 0xF8, CHR 0xF9, CHR 0xFA, CHR 0xFB, CHR 0xFC, CHR 0xFD, CHR 0xFE]"

definition js_lower_char :: "char \<Rightarrow> char" where
  "js_lower_char c = (case map_of (zip upper_units lower_units) c of Some d \<Rightarrow> d | None \<Rightarrow> c)"

definition js_toLowerCase :: "string \<Rightarrow> string" where
  "js_toLowerCase s = map js_lower_char s"

text \<open>
  \<open>s.trim()\<close> removes white space and line terminators at both ends; among 8-bit
  units these are tab, line feed, vertical tab, form feed, carriage return, space and
  the no-break space \<open>0xA0\<close>. \<open>parseInt\<close> skips the same units at the start.
\<close>

definition js_space :: "char \<Rightarrow> bool" where
  "js_space c = (c \<in> set [CHR 0x09, CHR 0x0A, CHR 0x0B, CHR 0x0C, CHR 0x0D, CHR 0x20, CHR 0xA0])"

definition js_trim :: "string \<Rightarrow> string" where
  "js_trim s = rev (dropWhile js_space (rev (dropWhile js_space s)))"

text \<open>The decimal digits of a natural number, and of an integer that is not negative.\<close>

function show_nat :: "nat \<Rightarrow> string" where
  "show_nat n =
     (if n < 10 then [''0123456789'' ! n]
      else show_nat (n div 10) @ [''0123456789'' ! (n mod 10)])"
  by pat_completeness auto
termination
  by (relation "measure id") auto

function show_digits :: "int \<Rightarrow> string" where
  "show_digits n =
     (if n < 10 then [''0123456789'' ! nat n]
      else show_digits (n div 10) @ [''0123456789'' ! nat (n mod 10)])"
  by pat_completeness auto
termination
  by (relation "measure nat") auto

section \<open>JavaScript numbers\<close>

text \<open>
  A JavaScript number is a double. The model holds the doubles whose value is an
  integer, and the two infinities; fractions are outside the model, and \<open>NaN\<close> is
  \<open>None\<close> where it can arise. \<open>Finite i\<close> stands for the double of value \<open>i\<close>, so
  \<open>i\<close> is an integer that a double can hold: every integer up to \<open>2 ^ 53\<close>, and
  beyond it the multiples of a power of two with 53 significant bits.
\<close>

datatype number = Finite int | PosInfinity | NegInfinity

text \<open>
  The double nearest to an integer: an integer of more than 53 bits is rounded to 53
  significant bits, a tie going to the even neighbour, and what reaches \<open>2 ^ 1024\<close>
  is infinite.
\<close>

function bit_count :: "int \<Rightarrow> nat" where
  "bit_count n = (if n \<le> 0 then 0 else Suc (bit_count (n div 2)))"
  by pat_completeness auto
termination
  by (relation "measure nat") auto

definition round_double :: "int \<Rightarrow> int" where
  "round_double m =
     (let e = bit_count m - 53; q = m div 2 ^ e; r = m mod 2 ^ e
      in if e = 0 then m
         else if 2 ^ (e - 1) < r \<or> (r = 2 ^ (e - 1) \<and> odd q) then (q + 1) * 2 ^ e
         else q * 2 ^ e)"

definition to_number :: "int \<Rightarrow> number" where
  "to_number i =
     (let m = round_double \<bar>i\<bar>
      in if 2 ^ 1024 \<le> m then (if i < 0 then NegInfinity else PosInfinity)
         else Finite (if i < 0 then - m else m))"

text \<open>
  \<open>Number::toString\<close> for a double \<open>x\<close> that is a positive integer. Below
  \<open>2 ^ 53\<close> these are its decimal digits. In general they are the digits of the
  shortest \<open>s\<close> (of \<open>k\<close> digits) for which \<open>s * 10 ^ (n - k)\<close> rounds to \<open>x\<close>, the
  one nearest to \<open>x\<close> when there are several: followed by \<open>n - k\<close> zeros when
  \<open>n\<close> is at most 21, and in the exponent form \<open>d.ddde+(n-1)\<close> otherwise.
\<close>

definition shortest_digits :: "int \<Rightarrow> (nat \<times> nat \<times> int) list" where
  "shortest_digits x =
     (let d = length (show_digits x)
      in [(k, n, s).
            k \<leftarrow> [1..<18],
            n \<leftarrow> [d - 1, d, d + 1],
            k \<le> n,
            s \<leftarrow> [x div 10 ^ (n - k), x div 10 ^ (n - k) + 1],
            10 ^ (k - 1) \<le> s \<and> s < 10 ^ k \<and> round_double (s * 10 ^ (n - k)) = x])"

definition distance :: "int \<Rightarrow> int \<Rightarrow> int" where
  "distance a b = \<bar>a - b\<bar>"

fun closest ::
  "int \<Rightarrow> (nat \<times> nat \<times> int) \<Rightarrow> (nat \<times> nat \<times> int) list \<Rightarrow> (nat \<times> nat \<times> int)" where
  "closest x best [] = best"
| "closest x (k, n, s) ((k', n', s') # cs) =
     (if k' = k \<and>
         (distance (s' * 10 ^ (n' - k')) x < distance (s * 10 ^ (n - k)) x \<or>
          (distance (s' * 10 ^ (n' - k')) x = distance (s * 10 ^ (n - k)) x \<and> even s'))
      then closest x (k', n', s') cs
      else closest x (k, n, s) cs)"

definition number_digits :: "int \<Rightarrow> string" where
  "number_digits x =
     (if x < 2 ^ 53 then show_digits x
      else case shortest_digits x of
             [] \<Rightarrow> show_digits x
           | c # cs \<Rightarrow>
               (case closest x c cs of (k, n, s) \<Rightarrow>
                  if n \<le> 21 then show_digits s @ replicate (n - k) CHR ''0''
                  else if k = 1 then show_digits s @ ''e+'' @ show_nat (n - 1)
                  else take 1 (show_digits s) @ ''.'' @ drop 1 (show_digits s) @
                       ''e+'' @ show_nat (n - 1)))"

definition number_text :: "number \<Rightarrow> string" where
  "number_text x =
     (case x of
        Finite i \<Rightarrow> if i < 0 then CHR ''-'' # number_digits (- i) else number_digits i
      | PosInfinity \<Rightarrow> ''Infinity''
      | NegInfinity \<Rightarrow> ''-Infinity'')"

text \<open>
  \<open>parseInt(s)\<close> with no radix: leading white space is skipped, a sign is read, the
  prefix \<open>0x\<close> or \<open>0X\<close> selects radix 16 (radix 10 otherwise), and the longest run of
  digits of the radix is the value; with no digit the result is \<open>NaN\<close>, which is
  \<open>None\<close> here. The result is the double nearest to the integer the digits denote.
\<close>

definition digit_of :: "int \<Rightarrow> char \<Rightarrow> int option" where
  "digit_of radix c =
     (case map_of (zip ''0123456789abcdefABCDEF''
                       [0, 1, 2, 3, 4, 5, 6, 7, 8, 9, 10, 11, 12, 13, 14, 15, 10, 11, 12, 13, 14, 15]) c of
        None \<Rightarrow> None
      | Some d \<Rightarrow> if d < radix then Some d else None)"

fun digits_value :: "int \<Rightarrow> int \<Rightarrow> string \<Rightarrow> int" where
  "digits_value radix acc [] = acc"
| "digits_value radix acc (c # s) =
     (case digit_of radix c of
        None \<Rightarrow> acc
      | Some d \<Rightarrow> digits_value radix (acc * radix + d) s)"

definition parse_unsigned :: "string \<Rightarrow> int option" where
  "parse_unsigned s =
     (let radix = (if js_startsWith s ''0x'' \<or> js_startsWith s ''0X'' then 16 else 10);
          ds = (if radix = 16 then drop 2 s else s)
      in case ds of
           [] \<Rightarrow> None
         | c # _ \<Rightarrow> (case digit_of radix c of
                        None \<Rightarrow> None
                      | Some _ \<Rightarrow> Some (digits_value radix 0 ds)))"

definition parseInt :: "string \<Rightarrow> number option" where
  "parseInt s =
     (case dropWhile js_space s of
        [] \<Rightarrow> None
      | c # t \<Rightarrow>
          if c = CHR ''-'' then map_option (\<lambda>n. to_number (- n)) (parse_unsigned t)
          else if c = CHR ''+'' then map_option to_number (parse_unsigned t)
          else map_option to_number (parse_unsigned (c # t)))"

section \<open>JSON values as JavaScript sees them\<close>

text \<open>
  The value \<open>JSON.parse\<close> or \<open>response.json()\<close> returns. \<open>JObj\<close> holds the own
  properties of an object in the order \<open>Object.entries\<close> lists them, each key once.
  \<open>JNum\<close> holds a number. A \<open>json option\<close> is a value or \<open>undefined\<close>.

  \<open>JSON.parse\<close> itself belongs to the JavaScript runtime, not to this repository: the
  functions that call it take it as the parameter \<open>parse\<close>, with \<open>None\<close> where it
  throws.
\<close>

datatype json =
    JNull
  | JBool bool
  | JNum number
  | JStr string
  | JArr "json list"
  | JObj "(string \<times> json) list"

type_synonym json_parser = "string \<Rightarrow> json option"

datatype js_error = TypeError | SyntaxError | FetchError

fun js_truthy :: "json \<Rightarrow> bool" where
  "js_truthy JNull = False"
| "js_truthy (JBool b) = b"
| "js_truthy (JNum n) = (n \<noteq> Finite 0)"
| "js_truthy (JStr s) = (s \<noteq> [])"
| "js_truthy (JArr xs) = True"
| "js_truthy (JObj kvs) = True"

definition truthy :: "json option \<Rightarrow> bool" where
  "truthy v = (case v of None \<Rightarrow> False | Some j \<Rightarrow> js_truthy j)"

text \<open>\<open>typeof v === 'object'\<close>: objects, arrays and \<open>null\<close>.\<close>

fun typeof_object :: "json \<Rightarrow> bool" where
  "typeof_object JNull = True"
| "typeof_object (JArr xs) = True"
| "typeof_object (JObj kvs) = True"
| "typeof_object v = False"

text \<open>
  \<open>Object.entries(v)\<close> for a value that is not \<open>null\<close>: the properties of an object,
  the elements of an array under their indices, the code units of a string under their
  indices, and nothing for a number or a boolean.
\<close>

definition indexed :: "'a list \<Rightarrow> (string \<times> 'a) list" where
  "indexed xs = zip (map show_nat [0..<length xs]) xs"

fun entries :: "json \<Rightarrow> (string \<times> json) list" where
  "entries (JObj kvs) = kvs"
| "entries (JArr xs) = indexed xs"
| "entries (JStr s) = indexed (map (\<lambda>c. JStr [c]) s)"
| "entries v = []"

text \<open>
  The property read \<open>v.k\<close> or \<open>v[k]\<close>: a \<open>TypeError\<close> on \<open>null\<close>, the own property
  otherwise, \<open>undefined\<close> when there is none. The names the program reads (\<open>status\<close>,
  \<open>message\<close>, \<open>result\<close>, \<open>SourceCode\<close>, \<open>settings\<close>, \<open>sources\<close>, \<open>optimizer\<close>,
  \<open>choices\<close>, \<open>0\<close>, and so on) are no members of a prototype, so own properties are
  all there is to find. \<open>js_get_opt\<close> is the read \<open>v?.k\<close> of a value that may be
  \<open>undefined\<close>.
\<close>

definition js_get :: "json \<Rightarrow> string \<Rightarrow> js_error + json option" where
  "js_get v k = (case v of JNull \<Rightarrow> Inl TypeError | _ \<Rightarrow> Inr (map_of (entries v) k))"

definition js_get_opt :: "json option \<Rightarrow> string \<Rightarrow> json option" where
  "js_get_opt v k =
     (case v of None \<Rightarrow> None | Some JNull \<Rightarrow> None | Some j \<Rightarrow> map_of (entries j) k)"

text \<open>
  \<open>String(v)\<close>, also the conversion a template literal applies. An array joins the
  strings of its elements with commas, \<open>null\<close> elements giving the empty string. An
  object prints as \<open>[object Object]\<close>; when it has an own property \<open>toString\<close> (a JSON
  value, so nothing that can be called) the conversion throws a \<open>TypeError\<close>.
\<close>

fun js_String :: "json \<Rightarrow> js_error + string"
  and js_join :: "json list \<Rightarrow> js_error + string" where
  "js_String JNull = Inr ''null''"
| "js_String (JBool b) = Inr (if b then ''true'' else ''false'')"
| "js_String (JNum n) = Inr (number_text n)"
| "js_String (JStr s) = Inr s"
| "js_String (JArr xs) = js_join xs"
| "js_String (JObj kvs) =
     (if ''toString'' \<in> set (map fst kvs) then Inl TypeError else Inr ''[object Object]'')"
| "js_join [] = Inr []"
| "js_join (x # xs) =
     (case (if x = JNull then Inr [] else js_String x) of
        Inl e \<Rightarrow> Inl e
      | Inr s \<Rightarrow>
          (if xs = [] then Inr s
           else case js_join xs of Inl e \<Rightarrow> Inl e | Inr r \<Rightarrow> Inr (s @ '','' @ r)))"

definition template_string :: "json option \<Rightarrow> js_error + string" where
  "template_string v = (case v of None \<Rightarrow> Inr ''undefined'' | Some j \<Rightarrow> js_String j)"

section \<open>The explorer client: \<open>src/app/api/source/route.ts\<close>\<close>

text \<open>
  \<open>toV2BaseUrl\<close>: a URL holding \<open>/v2/\<close> is returned as it is; otherwise
  \<open>v1Url.replace(/\/api\/?$/, '/v2/api')\<close> rewrites the match of the regular expression,
  which is anchored at the end of the string: the suffix \<open>/api/\<close> or the suffix \<open>/api\<close>
  (a string has at most one of the two). Without a match \<open>replace\<close> returns the string.
\<close>

definition toV2BaseUrl :: "string \<Rightarrow> string" where
  "toV2BaseUrl v1Url =
     (if js_includes v1Url ''/v2/'' then v1Url
      else if js_endsWith v1Url ''/api/'' then take (length v1Url - 5) v1Url @ ''/v2/api''
      else if js_endsWith v1Url ''/api'' then take (length v1Url - 4) v1Url @ ''/v2/api''
      else v1Url)"

text \<open>\<open>v || ''\<close> for a value that may be \<open>undefined\<close>.\<close>

definition or_empty :: "json option \<Rightarrow> json" where
  "or_empty v = (case v of None \<Rightarrow> JStr [] | Some j \<Rightarrow> if js_truthy j then j else JStr [])"

definition isDeprecatedV1Error :: "json \<Rightarrow> js_error + bool" where
  "isDeprecatedV1Error data =
     (case js_String (or_empty (js_get_opt (Some data) ''result'')) of
        Inl e \<Rightarrow> Inl e
      | Inr r \<Rightarrow>
          (case js_String (or_empty (js_get_opt (Some data) ''message'')) of
             Inl e \<Rightarrow> Inl e
           | Inr m \<Rightarrow>
               (let msg = js_toLowerCase (r @ '' '' @ m)
                in Inr (js_includes msg ''deprecated'' \<and> js_includes msg ''v1''))))"

fun extractSourceContent :: "json \<Rightarrow> string" where
  "extractSourceContent (JStr s) = s"
| "extractSourceContent (JObj kvs) =
     (case map_of kvs ''content'' of Some (JStr c) \<Rightarrow> c | _ \<Rightarrow> [])"
| "extractSourceContent fileInfo = []"

definition getResultArray :: "json \<Rightarrow> js_error + json list" where
  "getResultArray data =
     (case js_get data ''result'' of
        Inl e \<Rightarrow> Inl e
      | Inr (Some (JArr xs)) \<Rightarrow> Inr xs
      | Inr _ \<Rightarrow> Inr [])"

definition getFirstSourceItem :: "json \<Rightarrow> js_error + json option" where
  "getFirstSourceItem data =
     (case getResultArray data of
        Inl e \<Rightarrow> Inl e
      | Inr [] \<Rightarrow> Inr None
      | Inr (first # _) \<Rightarrow>
          Inr (if js_truthy first \<and> typeof_object first then Some first else None))"

text \<open>
  The network. A request is the base URL and the \<open>URLSearchParams\<close> behind the
  question mark; the program fetches the URL \<open>baseUrl?params\<close>. A \<open>network\<close> answers
  the newest request given all requests made so far (the last element is the one
  being answered): \<open>Some\<close> of the decoded JSON body, or \<open>None\<close> when \<open>fetch\<close> or
  \<open>resp.json()\<close> throws. The functions that fetch take the log of requests made and
  return the longer log, so every request is counted, also before a throw.
\<close>

type_synonym params = "(string \<times> string) list"

fun params_set :: "params \<Rightarrow> string \<Rightarrow> string \<Rightarrow> params" where
  "params_set [] k v = [(k, v)]"
| "params_set ((k', v') # ps) k v =
     (if k' = k then (k, v) # filter (\<lambda>q. fst q \<noteq> k) ps else (k', v') # params_set ps k v)"

record request =
  req_base :: string
  req_params :: params

type_synonym network = "request list \<Rightarrow> json option"

type_synonym 'a io = "request list \<Rightarrow> request list \<times> (js_error + 'a)"

definition io_bind :: "'a io \<Rightarrow> ('a \<Rightarrow> 'b io) \<Rightarrow> 'b io" where
  "io_bind m f log = (case m log of (log1, Inl e) \<Rightarrow> (log1, Inl e) | (log1, Inr a) \<Rightarrow> f a log1)"

definition io_lift :: "js_error + 'a \<Rightarrow> 'a io" where
  "io_lift r log = (log, r)"

text \<open>
  \<open>fetchExplorer\<close> and its inner \<open>attempt\<close>; \<open>url\<close> and \<open>chainId\<close> are the variables
  of \<open>GET\<close> the closure reads.
\<close>

definition attempt :: "network \<Rightarrow> string \<Rightarrow> params \<Rightarrow> string \<Rightarrow> bool \<Rightarrow> json io" where
  "attempt net chainId ps baseUrl useV2 log =
     (let p = (if useV2 \<and> chainId \<noteq> [] then params_set ps ''chainid'' chainId else ps);
          log1 = log @ [\<lparr>req_base = baseUrl, req_params = p\<rparr>]
      in (log1, case net log1 of None \<Rightarrow> Inl FetchError | Some json \<Rightarrow> Inr json))"

definition fetchExplorer :: "network \<Rightarrow> string \<Rightarrow> string \<Rightarrow> params \<Rightarrow> json io" where
  "fetchExplorer net url chainId ps log =
     (case attempt net chainId ps url False log of
        (log1, Inl e) \<Rightarrow> (log1, Inl e)
      | (log1, Inr json) \<Rightarrow>
          if js_get_opt (Some json) ''status'' = Some (JStr ''0'') then
            (case isDeprecatedV1Error json of
               Inl e \<Rightarrow> (log1, Inl e)
             | Inr deprecated \<Rightarrow>
                 if deprecated then attempt net chainId ps (toV2BaseUrl url) True log1
                 else (log1, Inr json))
          else (log1, Inr json))"

section \<open>Source resolution: the handler \<open>GET\<close>\<close>

record ContractFile =
  name :: string
  path :: string
  content :: string

text \<open>\<open>path.split('/').pop() || path\<close>: what follows the last slash, or the whole path.\<close>

definition last_segment :: "string \<Rightarrow> string" where
  "last_segment p =
     (let seg = rev (takeWhile (\<lambda>c. c \<noteq> CHR ''/'') (rev p)) in if seg = [] then p else seg)"

definition source_file :: "string \<Rightarrow> string \<times> json \<Rightarrow> ContractFile" where
  "source_file pre e =
     \<lparr>name = last_segment (fst e), path = pre @ fst e, content = extractSourceContent (snd e)\<rparr>"

text \<open>
  The one-file list \<open>{ name: `${result.ContractName}.sol`, path: ..., content:
  result.SourceCode }\<close>, the path under the prefix given.
\<close>

definition single_file :: "string \<Rightarrow> json \<Rightarrow> string \<Rightarrow> js_error + ContractFile list" where
  "single_file pre result sc =
     (case template_string (js_get_opt (Some result) ''ContractName'') of
        Inl e \<Rightarrow> Inl e
      | Inr cn \<Rightarrow> Inr [\<lparr>name = cn @ ''.sol'', path = pre @ cn @ ''.sol'', content = sc\<rparr>])"

text \<open>
  Lines 138 to 180: the list \<open>files\<close> and the \<open>settings\<close> read from the packed JSON
  (\<open>None\<close> while \<open>settings\<close> is still \<open>null\<close>). The \<open>catch\<close> is reached when
  \<open>JSON.parse\<close> throws and when \<open>parsed\<close> is \<open>null\<close>, whose property read throws.
\<close>

definition all_files ::
  "json_parser \<Rightarrow> json \<Rightarrow> string \<Rightarrow> js_error + (ContractFile list \<times> json option)" where
  "all_files parse result sc =
     (if js_startsWith sc ''{'' then
        (case parse (js_substring sc 1 (length sc - 1)) of
           None \<Rightarrow> map_sum id (\<lambda>fs. (fs, None)) (single_file [] result sc)
         | Some parsed \<Rightarrow>
             (case js_get parsed ''settings'' of
                Inl e \<Rightarrow> map_sum id (\<lambda>fs. (fs, None)) (single_file [] result sc)
              | Inr st \<Rightarrow>
                  (let settings = (if truthy st then st else None);
                       srcs = js_get_opt (Some parsed) ''sources''
                   in case srcs of
                        Some sources \<Rightarrow>
                          if js_truthy sources
                          then Inr (map (source_file []) (entries sources), settings)
                          else Inr (map (source_file []) (entries parsed), settings)
                      | None \<Rightarrow> Inr (map (source_file []) (entries parsed), settings))))
      else map_sum id (\<lambda>fs. (fs, None)) (single_file [] result sc))"

text \<open>
  What lines 138 to 180 leave in \<open>settings\<close>: \<open>parsed.settings\<close> when the source is
  packed, parses, and the value is truthy; otherwise \<open>settings\<close> is still \<open>null\<close>
  (\<open>None\<close>).
\<close>

definition packed_settings :: "json_parser \<Rightarrow> string \<Rightarrow> json option" where
  "packed_settings parse sc =
     (if js_startsWith sc ''{'' then
        (case parse (js_substring sc 1 (length sc - 1)) of
           None \<Rightarrow> None
         | Some parsed \<Rightarrow>
             (case js_get parsed ''settings'' of
                Inr (Some st) \<Rightarrow> if js_truthy st then Some st else None
              | _ \<Rightarrow> None))
      else None)"

text \<open>
  Lines 219 to 247, 261 to 289 and 293 to 321: the same block three times, for the
  proxy (prefix \<open>proxy/\<close>), the implementation (prefix \<open>implementation/\<close>) and a
  contract that is no proxy (no prefix). It pushes to \<open>filteredFiles\<close>; without a truthy
  \<open>parsed.sources\<close> it pushes nothing.
\<close>

definition role_files ::
  "json_parser \<Rightarrow> string \<Rightarrow> json \<Rightarrow> string \<Rightarrow> js_error + ContractFile list" where
  "role_files parse pre result sc =
     (if js_startsWith sc ''{'' then
        (case parse (js_substring sc 1 (length sc - 1)) of
           None \<Rightarrow> single_file pre result sc
         | Some parsed \<Rightarrow>
             (case js_get parsed ''sources'' of
                Inl e \<Rightarrow> single_file pre result sc
              | Inr None \<Rightarrow> Inr []
              | Inr (Some sources) \<Rightarrow>
                  if js_truthy sources then Inr (map (source_file pre) (entries sources))
                  else Inr []))
      else single_file pre result sc)"

text \<open>Lines 183 to 206: the default settings, built when \<open>settings\<close> is still \<open>null\<close>.\<close>

definition default_settings :: "json \<Rightarrow> js_error + json" where
  "default_settings result =
     (case template_string (js_get_opt (Some result) ''Runs'') of
        Inl e \<Rightarrow> Inl e
      | Inr rs \<Rightarrow>
          Inr (JObj
            [(''remappings'', JArr []),
             (''optimizer'', JObj
                [(''enabled'', JBool (js_get_opt (Some result) ''OptimizationUsed'' = Some (JStr ''1''))),
                 (''runs'', JNum (case parseInt rs of
                                    None \<Rightarrow> Finite 200
                                  | Some n \<Rightarrow> if n = Finite 0 then Finite 200 else n))]),
             (''metadata'', JObj [(''bytecodeHash'', JStr ''none'')]),
             (''outputSelection'', JObj
                [(''*'', JObj
                   [(''*'', JArr [JStr ''evm.bytecode'', JStr ''evm.deployedBytecode'',
                                  JStr ''devdoc'', JStr ''userdoc'', JStr ''metadata'',
                                  JStr ''abi''])])])]))"

text \<open>Lines 208 to 215: the implementation address, and whether this is a proxy.\<close>

definition normalizedImplementation :: "json \<Rightarrow> string option" where
  "normalizedImplementation result =
     (let implementationRaw =
            (case js_get_opt (Some result) ''Implementation'' of Some (JStr s) \<Rightarrow> s | _ \<Rightarrow> [])
      in if implementationRaw \<noteq> [] \<and>
            implementationRaw \<noteq> ''0x0000000000000000000000000000000000000000''
         then Some implementationRaw else None)"

definition isProxy :: "json \<Rightarrow> bool" where
  "isProxy result = (normalizedImplementation result \<noteq> None)"

text \<open>\<open>data.status === '1' ? getFirstSourceItem(data) : null\<close>.\<close>

definition source_item :: "json \<Rightarrow> js_error + json option" where
  "source_item data =
     (case js_get data ''status'' of
        Inl e \<Rightarrow> Inl e
      | Inr st \<Rightarrow> if st = Some (JStr ''1'') then getFirstSourceItem data else Inr None)"

definition explorer_params :: "string \<Rightarrow> string \<Rightarrow> string \<Rightarrow> params" where
  "explorer_params action address key =
     params_set [(''module'', ''contract''), (''action'', action), (''address'', address)]
       ''apikey'' key"

text \<open>
  Lines 217 to 322: \<open>filteredFiles\<close>. For a proxy, the proxy's files, then the fetch of
  the implementation's source and its files when the explorer has an item for it.
\<close>

definition filtered_files ::
  "json_parser \<Rightarrow> network \<Rightarrow> string \<Rightarrow> string \<Rightarrow> string \<Rightarrow> json \<Rightarrow> string \<Rightarrow> ContractFile list io" where
  "filtered_files parse net url chainId key result sc =
     (case normalizedImplementation result of
        None \<Rightarrow> io_lift (role_files parse [] result sc)
      | Some impl \<Rightarrow>
          io_bind (io_lift (role_files parse ''proxy/'' result sc)) (\<lambda>proxyFiles.
          io_bind (fetchExplorer net url chainId (explorer_params ''getsourcecode'' impl key)) (\<lambda>implData.
          io_bind (io_lift (source_item implData)) (\<lambda>implResult.
            case implResult of
              None \<Rightarrow> io_lift (Inr proxyFiles)
            | Some ir \<Rightarrow>
                (case js_get_opt (Some ir) ''SourceCode'' of
                   Some (JStr isc) \<Rightarrow>
                     io_lift (map_sum id (\<lambda>fs. proxyFiles @ fs)
                                (role_files parse ''implementation/'' ir isc))
                 | _ \<Rightarrow> io_lift (Inl TypeError))))))"

text \<open>
  Lines 324 to 361: an ABI is fetched and parsed; anything but status \<open>1\<close> with a
  string that parses leaves the empty array.
\<close>

definition parse_abi :: "json_parser \<Rightarrow> json \<Rightarrow> js_error + json" where
  "parse_abi parse abiData =
     (case js_get abiData ''status'' of
        Inl e \<Rightarrow> Inl e
      | Inr st \<Rightarrow>
          if st = Some (JStr ''1'') then
            (case js_get_opt (Some abiData) ''result'' of
               Some (JStr r) \<Rightarrow> (case parse r of None \<Rightarrow> Inr (JArr []) | Some a \<Rightarrow> Inr a)
             | _ \<Rightarrow> Inr (JArr []))
          else Inr (JArr []))"

definition fetch_abi ::
  "json_parser \<Rightarrow> network \<Rightarrow> string \<Rightarrow> string \<Rightarrow> string \<Rightarrow> string \<Rightarrow> json io" where
  "fetch_abi parse net url chainId key address =
     io_bind (fetchExplorer net url chainId (explorer_params ''getabi'' address key))
       (\<lambda>abiData. io_lift (parse_abi parse abiData))"

text \<open>
  Lines 363 to 373: the object handed to \<open>NextResponse.json\<close>. Reading
  \<open>settings.optimizer.enabled\<close> throws when \<open>settings\<close> has no \<open>optimizer\<close>. A field
  that is \<open>undefined\<close> is \<open>None\<close>.
\<close>

record Bundle =
  files :: "ContractFile list"
  settings :: json
  contractName :: "json option"
  compiler :: "json option"
  optimization :: "json option"
  runs :: "json option"
  abi :: json
  implementationAbi :: json

definition bundle_of :: "ContractFile list \<Rightarrow> json \<Rightarrow> json \<Rightarrow> json \<Rightarrow> json \<Rightarrow> js_error + Bundle" where
  "bundle_of fs st result contractABI implementationABI =
     (case js_get st ''optimizer'' of
        Inl e \<Rightarrow> Inl e
      | Inr None \<Rightarrow> Inl TypeError
      | Inr (Some opt) \<Rightarrow>
          (case js_get opt ''enabled'' of
             Inl e \<Rightarrow> Inl e
           | Inr en \<Rightarrow>
               (case js_get opt ''runs'' of
                  Inl e \<Rightarrow> Inl e
                | Inr rn \<Rightarrow>
                    Inr \<lparr>files = fs, settings = st,
                         contractName = js_get_opt (Some result) ''ContractName'',
                         compiler = js_get_opt (Some result) ''CompilerVersion'',
                         optimization = en, runs = rn,
                         abi = contractABI, implementationAbi = implementationABI\<rparr>)))"

text \<open>
  What the handler answers: the bundle (status 200), or an error body with its HTTP
  status; the 502 body also carries the explorer's \<open>status\<close>, \<open>message\<close> and \<open>result\<close>
  and the key mode.
\<close>

datatype explorer_info =
  ExplorerInfo (info_status: "json option") (info_message: "json option")
    (info_result: "json option") (apiKeyMode: string)

datatype response =
    Resolved Bundle
  | Failed nat string "explorer_info option"

text \<open>Lines 124 to 374: the branch taken when the explorer has an item for the address.\<close>

definition resolve ::
  "json_parser \<Rightarrow> network \<Rightarrow> string \<Rightarrow> string \<Rightarrow> string \<Rightarrow> string \<Rightarrow> json \<Rightarrow> response io" where
  "resolve parse net url chainId key address result =
     (case js_get_opt (Some result) ''SourceCode'' of
        Some (JStr sc) \<Rightarrow>
          if sc = [] then io_lift (Inr (Failed 404 ''Contract source code not verified'' None))
          else
            io_bind (io_lift (all_files parse result sc)) (\<lambda>fs.
            io_bind (io_lift (case snd fs of Some st \<Rightarrow> Inr st | None \<Rightarrow> default_settings result)) (\<lambda>st.
            io_bind (filtered_files parse net url chainId key result sc) (\<lambda>filteredFiles.
            io_bind (fetch_abi parse net url chainId key address) (\<lambda>contractABI.
            io_bind (case normalizedImplementation result of
                       None \<Rightarrow> io_lift (Inr (JArr []))
                     | Some impl \<Rightarrow> fetch_abi parse net url chainId key impl) (\<lambda>implementationABI.
            io_lift (map_sum id Resolved
                       (bundle_of filteredFiles st result contractABI implementationABI)))))))
      | _ \<Rightarrow> io_lift (Inl TypeError))"

text \<open>
  The chain registry \<open>@/utils/chainServices\<close> is not among the sources: its two
  functions are parameters. \<open>getApiScanConfig\<close> gives the explorer's URL and the
  configured key (\<open>None\<close> when it throws), \<open>getChainId\<close> the chain id or \<open>undefined\<close>.
\<close>

record ScanConfig =
  scan_url :: string
  scan_apiKey :: "string option"

record chainServices =
  getApiScanConfig :: "string \<Rightarrow> ScanConfig option"
  getChainId :: "string \<Rightarrow> string option"

text \<open>\<open>apiKey || 'YourApiKeyToken'\<close>.\<close>

definition effectiveApiKey :: "string option \<Rightarrow> string" where
  "effectiveApiKey k = (case k of None \<Rightarrow> ''YourApiKeyToken'' | Some s \<Rightarrow> if s = [] then ''YourApiKeyToken'' else s)"

definition explorer_failure :: "string option \<Rightarrow> json \<Rightarrow> response" where
  "explorer_failure k data =
     Failed 502 ''Failed to fetch contract source''
       (Some (ExplorerInfo (js_get_opt (Some data) ''status'') (js_get_opt (Some data) ''message'')
                (js_get_opt (Some data) ''result'')
                (case k of None \<Rightarrow> ''public'' | Some s \<Rightarrow> if s = [] then ''public'' else ''custom'')))"

text \<open>The body of the \<open>try\<close> after the configuration is read.\<close>

definition GET_try ::
  "json_parser \<Rightarrow> network \<Rightarrow> ScanConfig \<Rightarrow> string \<Rightarrow> string \<Rightarrow> response io" where
  "GET_try parse net cfg chainId address =
     io_bind (fetchExplorer net (scan_url cfg) chainId
                (explorer_params ''getsourcecode'' address (effectiveApiKey (scan_apiKey cfg)))) (\<lambda>data.
     io_bind (io_lift (source_item data)) (\<lambda>result.
       case result of
         None \<Rightarrow> io_lift (Inr (explorer_failure (scan_apiKey cfg) data))
       | Some item \<Rightarrow>
           resolve parse net (scan_url cfg) chainId (effectiveApiKey (scan_apiKey cfg)) address item))"

text \<open>
  The handler: the query parameters \<open>address\<close> and \<open>chain\<close> (\<open>None\<close> when absent), the
  requests it made and its answer. Whatever is thrown inside the \<open>try\<close> ends in the
  500 answer of the \<open>catch\<close>.
\<close>

definition GET ::
  "chainServices \<Rightarrow> json_parser \<Rightarrow> network \<Rightarrow> string option \<Rightarrow> string option \<Rightarrow> request list \<times> response" where
  "GET cs parse net address chain =
     (case address of
        None \<Rightarrow> ([], Failed 400 ''Address and chain are required'' None)
      | Some a \<Rightarrow>
          (case chain of
             None \<Rightarrow> ([], Failed 400 ''Address and chain are required'' None)
           | Some c \<Rightarrow>
               if a = [] \<or> c = [] then ([], Failed 400 ''Address and chain are required'' None)
               else
                 (case getApiScanConfig cs c of
                    None \<Rightarrow> ([], Failed 500 ''Failed to fetch contract source'' None)
                  | Some cfg \<Rightarrow>
                      (case GET_try parse net cfg
                              (case getChainId cs c of None \<Rightarrow> [] | Some i \<Rightarrow> i) a [] of
                         (log, Inl e) \<Rightarrow> (log, Failed 500 ''Failed to fetch contract source'' None)
                       | (log, Inr r) \<Rightarrow> (log, r)))))"

text \<open>
  The variable \<open>result\<close> of \<open>GET\<close> (line 123): the item the explorer reports for the
  source of \<open>address\<close>; \<open>None\<close> when the handler never gets that far or the explorer
  has no item.
\<close>

definition GET_result ::
  "chainServices \<Rightarrow> network \<Rightarrow> string option \<Rightarrow> string option \<Rightarrow> json option" where
  "GET_result cs net address chain =
     (case address of
        None \<Rightarrow> None
      | Some a \<Rightarrow>
          (case chain of
             None \<Rightarrow> None
           | Some c \<Rightarrow>
               if a = [] \<or> c = [] then None
               else
                 (case getApiScanConfig cs c of
                    None \<Rightarrow> None
                  | Some cfg \<Rightarrow>
                      (case fetchExplorer net (scan_url cfg)
                              (case getChainId cs c of None \<Rightarrow> [] | Some i \<Rightarrow> i)
                              (explorer_params ''getsourcecode'' a (effectiveApiKey (scan_apiKey cfg))) [] of
                         (log, Inl e) \<Rightarrow> None
                       | (log, Inr data) \<Rightarrow>
                           (case source_item data of Inl e \<Rightarrow> None | Inr r \<Rightarrow> r)))))"

section \<open>The inference call: \<open>src/utils/ai.ts\<close> and \<open>src/utils/neversight-models.ts\<close>\<close>

datatype NeversightModel =
  NeversightModel (model_id: string) (model_name: string) (description: string)

definition NEVERSIGHT_MODELS :: "NeversightModel list" where
  "NEVERSIGHT_MODELS =
     [NeversightModel ''anthropic/claude-4.5-opus'' ''Claude 4.5 Opus'' ''Anthropic Claude 4.5 Opus'',
      NeversightModel ''anthropic/claude-4.5-opus-max'' ''Claude 4.5 Opus Max'' ''Anthropic Claude 4.5 Opus Max'',
      NeversightModel ''google/gemini-3-pro'' ''Gemini 3 Pro'' ''Google Gemini 3 Pro'',
      NeversightModel ''google/gemini-3-flash'' ''Gemini 3 Flash'' ''Google Gemini 3 Flash'',
      NeversightModel ''openai/gpt-5.2'' ''GPT-5.2'' ''OpenAI GPT-5.2'',
      NeversightModel ''openai/gpt-5.2-high'' ''GPT-5.2 High'' ''OpenAI GPT-5.2 High'']"

text \<open>
  \<open>NEVERSIGHT_MODELS.find((m) => m.id === modelId)\<close>; the argument is whatever the
  stored configuration holds under \<open>selectedModel\<close>, and only a string is \<open>===\<close> to an
  id.
\<close>

definition getNeversightModelById :: "json option \<Rightarrow> NeversightModel option" where
  "getNeversightModelById modelId = find (\<lambda>m. modelId = Some (JStr (model_id m))) NEVERSIGHT_MODELS"

text \<open>
  The errors \<open>analyzeWithAI\<close> throws, one constructor for each \<open>throw\<close> of the source:
  \<open>Thrown\<close> is an error of the runtime (\<open>JSON.parse\<close>, a property read, \<open>trim\<close> on a
  value that has none, \<open>response.json()\<close>), \<open>FetchRejected\<close> a \<open>fetch\<close> that rejects
  (the network, or the abort signal). \<open>RequestFailed\<close> carries the status, the status
  text and the body; \<open>InvalidModel\<close> the text of \<open>selectedModel\<close>.
\<close>

datatype ai_error =
    ConfigurationNotFound
  | Thrown js_error
  | InvalidModel string
  | ApiKeyNotFound
  | RequestFailed nat string string
  | UnexpectedFormat
  | FetchRejected

text \<open>
  The request to \<open>https://api.neversight.dev/v1/chat/completions\<close>: the
  \<open>Authorization\<close> header and, of the body, the model and the user message (the system
  message and the temperature are constants). The reply: \<open>ok\<close>, \<open>status\<close>,
  \<open>statusText\<close>, the body as \<open>text()\<close> reads it and as \<open>json()\<close> decodes it (\<open>None\<close>
  when that throws). The endpoint is a parameter: \<open>None\<close> when \<open>fetch\<close> rejects.
\<close>

record ai_request =
  authorization :: string
  body_model :: string
  body_user :: string

record ai_reply =
  reply_ok :: bool
  reply_status :: nat
  reply_statusText :: string
  reply_text :: string
  reply_json :: "json option"

type_synonym inference = "ai_request \<Rightarrow> ai_reply option"

text \<open>\<open>config.apiKey?.trim()\<close>, for a \<open>config\<close> that is not \<open>null\<close>.\<close>

definition trimmed_apiKey :: "json \<Rightarrow> js_error + string option" where
  "trimmed_apiKey config =
     (case js_get_opt (Some config) ''apiKey'' of
        None \<Rightarrow> Inr None
      | Some JNull \<Rightarrow> Inr None
      | Some (JStr k) \<Rightarrow> Inr (Some (js_trim k))
      | Some _ \<Rightarrow> Inl TypeError)"

text \<open>\<open>data?.choices?.[0]?.message?.content\<close>.\<close>

definition completion :: "json \<Rightarrow> json option" where
  "completion data =
     js_get_opt (js_get_opt (js_get_opt (js_get_opt (Some data) ''choices'') ''0'') ''message'') ''content''"

text \<open>
  Lines 123 to 135, with the \<open>catch\<close> that throws again what it caught: what becomes
  of the reply. \<open>None\<close> is a \<open>fetch\<close> that rejected.
\<close>

definition read_reply :: "ai_reply option \<Rightarrow> ai_error + string" where
  "read_reply r =
     (case r of
        None \<Rightarrow> Inl FetchRejected
      | Some response \<Rightarrow>
          if \<not> reply_ok response then
            Inl (RequestFailed (reply_status response) (reply_statusText response)
                   (reply_text response))
          else
            (case reply_json response of
               None \<Rightarrow> Inl (Thrown SyntaxError)
             | Some data \<Rightarrow>
                 (case completion data of
                    Some (JStr c) \<Rightarrow> if c = [] then Inl UnexpectedFormat else Inr c
                  | _ \<Rightarrow> Inl UnexpectedFormat)))"

text \<open>
  \<open>analyzeWithAI\<close>: \<open>storage\<close> is \<open>localStorage.getItem("ai_config")\<close> (\<open>None\<close> for
  \<open>null\<close>). The result is the list of requests sent (none or one) and the error thrown
  or the string returned.
\<close>

definition analyzeWithAI ::
  "json_parser \<Rightarrow> string option \<Rightarrow> inference \<Rightarrow> string \<Rightarrow> ai_request list \<times> (ai_error + string)" where
  "analyzeWithAI parse storage infer prompt =
     (case storage of
        None \<Rightarrow> ([], Inl ConfigurationNotFound)
      | Some savedConfig \<Rightarrow>
          if savedConfig = [] then ([], Inl ConfigurationNotFound)
          else
            (case parse savedConfig of
               None \<Rightarrow> ([], Inl (Thrown SyntaxError))
             | Some config \<Rightarrow>
                 (case js_get config ''selectedModel'' of
                    Inl e \<Rightarrow> ([], Inl (Thrown e))
                  | Inr selectedModel \<Rightarrow>
                      (case getNeversightModelById selectedModel of
                         None \<Rightarrow>
                           ([], Inl (case template_string selectedModel of
                                       Inl e \<Rightarrow> Thrown e
                                     | Inr m \<Rightarrow> InvalidModel m))
                       | Some model \<Rightarrow>
                           (case trimmed_apiKey config of
                              Inl e \<Rightarrow> ([], Inl (Thrown e))
                            | Inr None \<Rightarrow> ([], Inl ApiKeyNotFound)
                            | Inr (Some k) \<Rightarrow>
                                if k = [] then ([], Inl ApiKeyNotFound)
                                else
                                  (let req = \<lparr>authorization = ''Bearer '' @ k,
                                              body_model = model_id model,
                                              body_user = prompt\<rparr>
                                   in ([req], read_reply (infer req))))))))"

section \<open>Concrete runs\<close>

text \<open>
  The data of the runs the theorems below evaluate. A \<open>scripted\<close> network answers the
  n-th request with the n-th entry of a list (and rejects any further request). The
  chain registry knows \<open>ethereum\<close> (with chain id 1 and no configured key) and
  \<open>legacy\<close>, a chain without a chain id. A parser is given by the table of the strings
  it is asked to parse in the run, each with the value \<open>JSON.parse\<close> returns for it; on
  every other string it throws.
\<close>

definition scripted :: "json option list \<Rightarrow> network" where
  "scripted answers log =
     (if log = [] \<or> length answers < length log then None else answers ! (length log - 1))"

definition registry :: chainServices where
  "registry =
     \<lparr>getApiScanConfig = (\<lambda>c.
        if c = ''ethereum'' then Some \<lparr>scan_url = ''https://api.etherscan.io/api'', scan_apiKey = None\<rparr>
        else if c = ''legacy'' then Some \<lparr>scan_url = ''https://explorer.example/api'', scan_apiKey = None\<rparr>
        else None),
      getChainId = (\<lambda>c. if c = ''ethereum'' then Some ''1'' else None)\<rparr>"

definition item_of :: "string \<Rightarrow> string \<Rightarrow> json" where
  "item_of sc impl =
     JObj [(''SourceCode'', JStr sc), (''ContractName'', JStr ''A''),
           (''CompilerVersion'', JStr ''v0.8.20+commit.a1b79de6''),
           (''OptimizationUsed'', JStr ''1''), (''Runs'', JStr ''200''),
           (''Implementation'', JStr impl)]"

definition ok_response :: "json \<Rightarrow> json" where
  "ok_response r = JObj [(''status'', JStr ''1''), (''message'', JStr ''OK''), (''result'', r)]"

definition not_ok :: "string \<Rightarrow> json" where
  "not_ok r = JObj [(''status'', JStr ''0''), (''message'', JStr ''NOTOK''), (''result'', JStr r)]"

definition flat_source :: string where
  \<open>flat_source = ''{{"A.sol":{"content":"contract A {}"}}}''\<close>

definition flat_parse :: json_parser where
  \<open>flat_parse = map_of
     [(''{"A.sol":{"content":"contract A {}"}}'',
       JObj [(''A.sol'', JObj [(''content'', JStr ''contract A {}'')])])]\<close>

definition packed_source :: string where
  \<open>packed_source = ''{{"sources":{"proxy/A.sol":{"content":"contract A {}"}}}}''\<close>

definition packed_parse :: json_parser where
  \<open>packed_parse = map_of
     [(''{"sources":{"proxy/A.sol":{"content":"contract A {}"}}}'',
       JObj [(''sources'', JObj [(''proxy/A.sol'', JObj [(''content'', JStr ''contract A {}'')])])])]\<close>

definition no_parse :: json_parser where
  "no_parse s = None"

text \<open>
  The networks of the runs: a single-file contract, a packed contract whose one source
  path begins with \<open>proxy/\<close>, a proxy whose implementation the explorer has no
  source for, and the same proxy when the fetch of the implementation's source fails.
\<close>

definition single_net :: network where
  "single_net = scripted [Some (ok_response (JArr [item_of ''contract A {}'' []])),
                          Some (not_ok ''Contract source code not verified'')]"

definition packed_net :: network where
  "packed_net = scripted [Some (ok_response (JArr [item_of packed_source []])),
                          Some (not_ok ''Contract source code not verified'')]"

definition proxy_item :: json where
  "proxy_item = item_of ''contract P {}'' ''0xB''"

definition partial_net :: network where
  "partial_net = scripted [Some (ok_response (JArr [proxy_item])),
                           Some (not_ok ''Contract source code not verified''),
                           Some (not_ok ''Contract source code not verified''),
                           Some (not_ok ''Contract source code not verified'')]"

definition failing_net :: network where
  "failing_net = scripted [Some (ok_response (JArr [proxy_item])), None]"

text \<open>A packed source that brings its own \<open>settings\<close>, with its parser and network.\<close>

definition settings_source :: string where
  \<open>settings_source = ''{{"language":"Solidity","sources":{"A.sol":{"content":"contract A {}"}},"settings":{"optimizer":{"enabled":false,"runs":999}}}}''\<close>

definition settings_parse :: json_parser where
  \<open>settings_parse = map_of
     [(''{"language":"Solidity","sources":{"A.sol":{"content":"contract A {}"}},"settings":{"optimizer":{"enabled":false,"runs":999}}}'',
       JObj [(''language'', JStr ''Solidity''),
             (''sources'', JObj [(''A.sol'', JObj [(''content'', JStr ''contract A {}'')])]),
             (''settings'', JObj [(''optimizer'', JObj [(''enabled'', JBool False), (''runs'', JNum (Finite 999))])])])]\<close>

definition settings_net :: network where
  "settings_net = scripted [Some (ok_response (JArr [item_of settings_source []])),
                            Some (not_ok ''Contract source code not verified'')]"

text \<open>
  An explorer item with a chosen \<open>OptimizationUsed\<close> and \<open>Runs\<close>, and the network that
  serves it for a single-file contract.
\<close>

definition item_with :: "string \<Rightarrow> string \<Rightarrow> string \<Rightarrow> json" where
  "item_with sc used r =
     JObj [(''SourceCode'', JStr sc), (''ContractName'', JStr ''A''),
           (''CompilerVersion'', JStr ''v0.8.20+commit.a1b79de6''),
           (''OptimizationUsed'', JStr used), (''Runs'', JStr r),
           (''Implementation'', JStr [])]"

definition runs_net :: "string \<Rightarrow> string \<Rightarrow> network" where
  "runs_net used r = scripted [Some (ok_response (JArr [item_with ''contract A {}'' used r])),
                               Some (not_ok ''Contract source code not verified'')]"

text \<open>
  A proxy whose packed source brings settings without an \<open>optimizer\<close>; the explorer
  has no source for its implementation and answers both ABI requests \<open>NOTOK\<close>.
\<close>

definition bare_source :: string where
  \<open>bare_source = ''{{"sources":{"P.sol":{"content":"contract P {}"}},"settings":{"evmVersion":"paris"}}}''\<close>

definition bare_parse :: json_parser where
  \<open>bare_parse = map_of
     [(''{"sources":{"P.sol":{"content":"contract P {}"}},"settings":{"evmVersion":"paris"}}'',
       JObj [(''sources'', JObj [(''P.sol'', JObj [(''content'', JStr ''contract P {}'')])]),
             (''settings'', JObj [(''evmVersion'', JStr ''paris'')])])]\<close>

definition bare_net :: network where
  "bare_net = scripted [Some (ok_response (JArr [item_of bare_source ''0xB''])),
                        Some (not_ok ''Contract source code not verified''),
                        Some (not_ok ''Contract source code not verified''),
                        Some (not_ok ''Contract source code not verified'')]"

text \<open>
  The runs of \<open>analyzeWithAI\<close>: a stored configuration with the key \<open>sk-1\<close> between
  spaces, one whose key is blank, and an endpoint that answers 200 with a given body.
\<close>

definition config_text :: string where
  \<open>config_text = ''{"apiKey":" sk-1 ","selectedModel":"openai/gpt-5.2","language":"english","superPrompt":true}''\<close>

definition blank_key_text :: string where
  \<open>blank_key_text = ''{"apiKey":"  ","selectedModel":"openai/gpt-5.2","language":"english","superPrompt":true}''\<close>

definition config_of :: "string \<Rightarrow> json" where
  "config_of k = JObj [(''apiKey'', JStr k), (''selectedModel'', JStr ''openai/gpt-5.2''),
                       (''language'', JStr ''english''), (''superPrompt'', JBool True)]"

definition config_parse :: json_parser where
  "config_parse = map_of [(config_text, config_of '' sk-1 ''), (blank_key_text, config_of ''  '')]"

definition completion_body :: "string \<Rightarrow> json" where
  "completion_body c =
     JObj [(''choices'', JArr [JObj [(''index'', JNum (Finite 0)),
             (''message'', JObj [(''role'', JStr ''assistant''), (''content'', JStr c)])]])]"

definition answering :: "json \<Rightarrow> inference" where
  "answering body req =
     Some \<lparr>reply_ok = True, reply_status = 200, reply_statusText = ''OK'', reply_text = [],
           reply_json = Some body\<rparr>"

section \<open>Properties\<close>

subsection \<open>The explorer client\<close>

lemma js_startsWith_append: "js_startsWith (t @ q) t"
  by (induction t) simp_all

lemma js_includes_append: "js_includes (p @ t @ q) t"
proof (induction p)
  case Nil
  show ?case
    by (cases "t @ q") (use js_startsWith_append [of t q] in auto)
next
  case (Cons a p)
  then show ?case by simp
qed

lemma js_includes_v2_api: "js_includes (p @ ''/v2/api'') ''/v2/''"
  using js_includes_append [of p "''/v2/''" "''api''"] by simp

text \<open>
  C10. \<open>toV2BaseUrl\<close> is idempotent; a URL that holds \<open>/v2/\<close>, and a URL that ends
  neither in \<open>/api\<close> nor in \<open>/api/\<close>, is returned unchanged.
\<close>

theorem toV2BaseUrl_idempotent:
  "toV2BaseUrl (toV2BaseUrl u) = toV2BaseUrl u \<and>
   (if js_includes u ''/v2/'' then toV2BaseUrl u = u
    else if js_endsWith u ''/api/'' \<or> js_endsWith u ''/api'' then js_endsWith (toV2BaseUrl u) ''/v2/api''
    else toV2BaseUrl u = u)"
proof -
  have fixed: "toV2BaseUrl (p @ ''/v2/api'') = p @ ''/v2/api''" for p
    using js_includes_v2_api [of p] by (simp add: toV2BaseUrl_def)
  have idem: "toV2BaseUrl (toV2BaseUrl u) = toV2BaseUrl u"
  proof (cases "js_includes u ''/v2/''")
    case True
    then show ?thesis by (simp add: toV2BaseUrl_def)
  next
    case False
    show ?thesis
    proof (cases "js_endsWith u ''/api/''")
      case True
      with False have "toV2BaseUrl u = take (length u - 5) u @ ''/v2/api''"
        by (simp add: toV2BaseUrl_def)
      then show ?thesis using fixed by simp
    next
      case no_slash: False
      show ?thesis
      proof (cases "js_endsWith u ''/api''")
        case True
        with False no_slash have "toV2BaseUrl u = take (length u - 4) u @ ''/v2/api''"
          by (simp add: toV2BaseUrl_def)
        then show ?thesis using fixed by simp
      next
        case no_api: False
        with False no_slash have "toV2BaseUrl u = u"
          by (simp add: toV2BaseUrl_def)
        then show ?thesis by simp
      qed
    qed
  qed
  have suffix: "js_endsWith (p @ ''/v2/api'') ''/v2/api''" for p
    by (simp add: js_endsWith_def)
  show ?thesis
    using idem suffix by (simp add: toV2BaseUrl_def)
qed

lemma map_of_params_set: "map_of (params_set ps k v) k = Some v"
  by (induction ps) auto

text \<open>
  C2, as amended. \<open>fetchExplorer\<close> sends the v1 request; when the answer has status
  \<open>0\<close> and its text holds \<open>deprecated\<close> and \<open>v1\<close> it sends exactly one more request,
  to the v2 base URL, and none after it whatever the answer; on every other first
  answer (also when the fetch fails) the v1 request is the only one. The v2 request has
  the parameter \<open>chainid\<close> set when the chain id is not empty, and the parameters of the
  v1 request unchanged when it is empty.
\<close>

theorem fetchExplorer_requests:
  "fst (fetchExplorer net u chainId ps log) =
     (case net (log @ [\<lparr>req_base = u, req_params = ps\<rparr>]) of
        None \<Rightarrow> log @ [\<lparr>req_base = u, req_params = ps\<rparr>]
      | Some json \<Rightarrow>
          if js_get_opt (Some json) ''status'' = Some (JStr ''0'') \<and> isDeprecatedV1Error json = Inr True
          then log @ [\<lparr>req_base = u, req_params = ps\<rparr>,
                      \<lparr>req_base = toV2BaseUrl u,
                       req_params = (if chainId = [] then ps else params_set ps ''chainid'' chainId)\<rparr>]
          else log @ [\<lparr>req_base = u, req_params = ps\<rparr>]) \<and>
   map_of (params_set ps ''chainid'' chainId) ''chainid'' = Some chainId"
  by (auto simp: fetchExplorer_def attempt_def Let_def map_of_params_set split: option.splits sum.splits)

text \<open>
  C2 as stated fails for a chain without a chain id (\<open>getChainId(chain) || ''\<close> is the
  empty string): the answer to the v1 request reports the deprecation, and the v2
  request goes out without \<open>chainid\<close>. The same two requests are what the handler
  sends for the chain \<open>legacy\<close> of the registry.
\<close>

theorem fetchExplorer_without_chainid:
  "fst (fetchExplorer
          (scripted [Some (not_ok ''You are using a deprecated V1 endpoint''),
                     Some (not_ok ''Missing chainid'')])
          ''https://explorer.example/api'' []
          (explorer_params ''getsourcecode'' ''0xA'' ''YourApiKeyToken'') []) =
     [\<lparr>req_base = ''https://explorer.example/api'',
       req_params = [(''module'', ''contract''), (''action'', ''getsourcecode''),
                     (''address'', ''0xA''), (''apikey'', ''YourApiKeyToken'')]\<rparr>,
      \<lparr>req_base = ''https://explorer.example/v2/api'',
       req_params = [(''module'', ''contract''), (''action'', ''getsourcecode''),
                     (''address'', ''0xA''), (''apikey'', ''YourApiKeyToken'')]\<rparr>] \<and>
   fst (GET registry no_parse
          (scripted [Some (not_ok ''You are using a deprecated V1 endpoint''),
                     Some (not_ok ''Missing chainid'')])
          (Some ''0xA'') (Some ''legacy'')) =
     [\<lparr>req_base = ''https://explorer.example/api'',
       req_params = [(''module'', ''contract''), (''action'', ''getsourcecode''),
                     (''address'', ''0xA''), (''apikey'', ''YourApiKeyToken'')]\<rparr>,
      \<lparr>req_base = ''https://explorer.example/v2/api'',
       req_params = [(''module'', ''contract''), (''action'', ''getsourcecode''),
                     (''address'', ''0xA''), (''apikey'', ''YourApiKeyToken'')]\<rparr>]"
  by code_simp

subsection \<open>Sequencing\<close>

lemma io_bind_Inr:
  assumes "io_bind m f log = (log', Inr r)"
  obtains a log1 where "m log = (log1, Inr a)" and "f a log1 = (log', Inr r)"
  using assms by (auto simp: io_bind_def split: prod.splits sum.splits)

lemma io_lift_eq: "io_lift x log = (log', y) \<longleftrightarrow> log' = log \<and> y = x"
  by (auto simp: io_lift_def)

lemma bundle_of_fields:
  assumes "bundle_of fs st result a1 a2 = Inr b"
  shows "files b = fs" and "settings b = st"
  using assms by (auto simp: bundle_of_def split: sum.splits option.splits)

lemma resolve_Resolved:
  assumes "resolve parse net u ci k a result log = (log', Inr (Resolved b))"
  shows "\<exists>sc fs packed log1.
           js_get_opt (Some result) ''SourceCode'' = Some (JStr sc) \<and> sc \<noteq> [] \<and>
           all_files parse result sc = Inr (fs, packed) \<and>
           (case packed of Some st \<Rightarrow> Inr st | None \<Rightarrow> default_settings result) = Inr (settings b) \<and>
           filtered_files parse net u ci k result sc log = (log1, Inr (files b))"
proof -
  from assms obtain sc where sc: "js_get_opt (Some result) ''SourceCode'' = Some (JStr sc)"
    by (auto simp: resolve_def io_lift_eq split: option.splits json.splits)
  have ne: "sc \<noteq> []"
    using assms sc by (auto simp: resolve_def io_lift_eq)
  let ?rest = "\<lambda>fs. io_bind (io_lift (case snd fs of Some st \<Rightarrow> Inr st | None \<Rightarrow> default_settings result)) (\<lambda>st.
            io_bind (filtered_files parse net u ci k result sc) (\<lambda>filteredFiles.
            io_bind (fetch_abi parse net u ci k a) (\<lambda>contractABI.
            io_bind (case normalizedImplementation result of
                       None \<Rightarrow> io_lift (Inr (JArr []))
                     | Some impl \<Rightarrow> fetch_abi parse net u ci k impl) (\<lambda>implementationABI.
            io_lift (map_sum id Resolved
                       (bundle_of filteredFiles st result contractABI implementationABI))))))"
  have run: "io_bind (io_lift (all_files parse result sc)) ?rest log = (log', Inr (Resolved b))"
    using assms sc ne by (simp add: resolve_def)
  from run obtain fs l0 where fs: "io_lift (all_files parse result sc) log = (l0, Inr fs)"
    and r1: "?rest fs l0 = (log', Inr (Resolved b))"
    by (rule io_bind_Inr)
  from fs have l0: "l0 = log" and af: "all_files parse result sc = Inr fs"
    by (simp_all add: io_lift_eq)
  from r1 obtain st l1 where st: "io_lift (case snd fs of Some st \<Rightarrow> Inr st | None \<Rightarrow> default_settings result) l0 = (l1, Inr st)"
    and r2: "io_bind (filtered_files parse net u ci k result sc) (\<lambda>filteredFiles.
            io_bind (fetch_abi parse net u ci k a) (\<lambda>contractABI.
            io_bind (case normalizedImplementation result of
                       None \<Rightarrow> io_lift (Inr (JArr []))
                     | Some impl \<Rightarrow> fetch_abi parse net u ci k impl) (\<lambda>implementationABI.
            io_lift (map_sum id Resolved
                       (bundle_of filteredFiles st result contractABI implementationABI))))) l1 = (log', Inr (Resolved b))"
    by (rule io_bind_Inr)
  from st have l1: "l1 = log" and st': "(case snd fs of Some st \<Rightarrow> Inr st | None \<Rightarrow> default_settings result) = Inr st"
    using l0 by (simp_all add: io_lift_eq)
  from r2 obtain ff l2 where ff: "filtered_files parse net u ci k result sc l1 = (l2, Inr ff)"
    and r3: "io_bind (fetch_abi parse net u ci k a) (\<lambda>contractABI.
            io_bind (case normalizedImplementation result of
                       None \<Rightarrow> io_lift (Inr (JArr []))
                     | Some impl \<Rightarrow> fetch_abi parse net u ci k impl) (\<lambda>implementationABI.
            io_lift (map_sum id Resolved
                       (bundle_of ff st result contractABI implementationABI)))) l2 = (log', Inr (Resolved b))"
    by (rule io_bind_Inr)
  from r3 obtain a1 l3 where
      r4: "io_bind (case normalizedImplementation result of
                       None \<Rightarrow> io_lift (Inr (JArr []))
                     | Some impl \<Rightarrow> fetch_abi parse net u ci k impl) (\<lambda>implementationABI.
            io_lift (map_sum id Resolved
                       (bundle_of ff st result a1 implementationABI))) l3 = (log', Inr (Resolved b))"
    by (rule io_bind_Inr)
  from r4 obtain a2 l4 where
      r5: "io_lift (map_sum id Resolved (bundle_of ff st result a1 a2)) l4 = (log', Inr (Resolved b))"
    by (rule io_bind_Inr)
  from r5 have "bundle_of ff st result a1 a2 = Inr b"
    by (cases "bundle_of ff st result a1 a2") (simp_all add: io_lift_eq)
  then have "files b = ff" and "settings b = st"
    by (rule bundle_of_fields)+
  with sc ne af st' ff l1 show ?thesis
    by (cases fs) auto
qed

lemma GET_Resolved:
  assumes "snd (GET cs parse net address chain) = Resolved b"
  shows "\<exists>result u ci k a log log'.
           GET_result cs net address chain = Some result \<and>
           resolve parse net u ci k a result log = (log', Inr (Resolved b))"
proof -
  from assms obtain a c where ac: "address = Some a" "chain = Some c" "a \<noteq> []" "c \<noteq> []"
    by (auto simp: GET_def split: option.splits if_splits)
  from assms ac obtain cfg where cfg: "getApiScanConfig cs c = Some cfg"
    by (auto simp: GET_def split: option.splits)
  define ci where "ci = (case getChainId cs c of None \<Rightarrow> [] | Some i \<Rightarrow> i)"
  define k where "k = effectiveApiKey (scan_apiKey cfg)"
  from assms ac cfg obtain log' where run: "GET_try parse net cfg ci a [] = (log', Inr (Resolved b))"
    by (auto simp: GET_def ci_def split: prod.splits sum.splits)
  from run obtain data l1 where
      fe: "fetchExplorer net (scan_url cfg) ci (explorer_params ''getsourcecode'' a k) [] = (l1, Inr data)"
    and r1: "io_bind (io_lift (source_item data)) (\<lambda>result.
       case result of
         None \<Rightarrow> io_lift (Inr (explorer_failure (scan_apiKey cfg) data))
       | Some item \<Rightarrow> resolve parse net (scan_url cfg) ci k a item) l1 = (log', Inr (Resolved b))"
    unfolding GET_try_def k_def by (rule io_bind_Inr)
  from r1 obtain r l2 where si: "io_lift (source_item data) l1 = (l2, Inr r)"
    and r2: "(case r of
         None \<Rightarrow> io_lift (Inr (explorer_failure (scan_apiKey cfg) data))
       | Some item \<Rightarrow> resolve parse net (scan_url cfg) ci k a item) l2 = (log', Inr (Resolved b))"
    by (rule io_bind_Inr)
  from r2 obtain item where item: "r = Some item"
    by (cases r) (auto simp: io_lift_eq explorer_failure_def)
  from si item have si': "source_item data = Inr (Some item)"
    by (simp add: io_lift_eq)
  have "GET_result cs net address chain = Some item"
    using ac cfg fe si' by (simp add: GET_result_def ci_def k_def)
  moreover have "resolve parse net (scan_url cfg) ci k a item l2 = (log', Inr (Resolved b))"
    using r2 item by simp
  ultimately show ?thesis by blast
qed

subsection \<open>Proxy status\<close>

text \<open>
  C4. For every result item, \<open>isProxy\<close> holds exactly when \<open>Implementation\<close> is a
  string that is neither empty nor the zero address; the implementation address is
  then the reported string, and \<open>null\<close> otherwise.
\<close>

theorem proxy_status:
  "isProxy result =
     (\<exists>s. js_get_opt (Some result) ''Implementation'' = Some (JStr s) \<and> s \<noteq> [] \<and>
          s \<noteq> ''0x0000000000000000000000000000000000000000'') \<and>
   (case normalizedImplementation result of
      Some a \<Rightarrow> isProxy result \<and> js_get_opt (Some result) ''Implementation'' = Some (JStr a)
    | None \<Rightarrow> \<not> isProxy result)"
  by (auto simp: isProxy_def normalizedImplementation_def Let_def split: option.splits json.splits)

subsection \<open>Normalizing the source\<close>

text \<open>
  C7. When \<open>SourceCode\<close> begins with a brace and what is left after stripping the
  first and the last character does not parse, nothing is thrown: the list \<open>files\<close>
  and the list returned for a contract that is no proxy hold exactly one file, with name
  and path \<open>ContractName.sol\<close> and the raw \<open>SourceCode\<close> as content. \<open>ContractName\<close>
  is a string, as the type \<open>SourceCodeResultItem\<close> declares.
\<close>

theorem malformed_json_fallback:
  assumes "js_startsWith sc ''{''"
    and "parse (js_substring sc 1 (length sc - 1)) = None"
    and "js_get_opt (Some result) ''ContractName'' = Some (JStr cn)"
  shows "all_files parse result sc =
           Inr ([\<lparr>name = cn @ ''.sol'', path = cn @ ''.sol'', content = sc\<rparr>], None) \<and>
         role_files parse [] result sc =
           Inr [\<lparr>name = cn @ ''.sol'', path = cn @ ''.sol'', content = sc\<rparr>]"
  using assms by (simp add: all_files_def role_files_def single_file_def template_string_def)

text \<open>The fallback at work on the source \<open>{{bad\<close>, which no parser accepts.\<close>

theorem malformed_json_fallback_witness:
  "js_startsWith ''{{bad'' ''{'' \<and>
   no_parse (js_substring ''{{bad'' 1 (length ''{{bad'' - 1)) = None \<and>
   js_get_opt (Some (item_of ''{{bad'' [])) ''ContractName'' = Some (JStr ''A'') \<and>
   all_files no_parse (item_of ''{{bad'' []) ''{{bad'' =
     Inr ([\<lparr>name = ''A.sol'', path = ''A.sol'', content = ''{{bad''\<rparr>], None) \<and>
   role_files no_parse [] (item_of ''{{bad'' []) ''{{bad'' =
     Inr [\<lparr>name = ''A.sol'', path = ''A.sol'', content = ''{{bad''\<rparr>]"
proof -
  have h1: "js_startsWith ''{{bad'' ''{''" by simp
  have h2: "no_parse (js_substring ''{{bad'' 1 (length ''{{bad'' - 1)) = None"
    by (simp add: no_parse_def)
  have h3: "js_get_opt (Some (item_of ''{{bad'' [])) ''ContractName'' = Some (JStr ''A'')"
    by (simp add: js_get_opt_def item_of_def)
  show ?thesis
    using h1 h2 h3 malformed_json_fallback [where parse = no_parse, OF h1 h2 h3] by simp
qed

text \<open>
  C3 at the flat-map payload \<open>{{"A.sol":{"content":"contract A {}"}}}\<close> of a contract
  that is no proxy: the bundle returned has no file at all, while the list \<open>files\<close> of
  lines 149 to 165, which the handler builds and never returns, holds the file.
\<close>

theorem flat_map_files_dropped:
  "(case snd (GET registry flat_parse
               (scripted [Some (ok_response (JArr [item_of flat_source []])),
                          Some (not_ok ''Contract source code not verified'')])
               (Some ''0xA'') (Some ''ethereum'')) of
      Resolved b \<Rightarrow> files b = []
    | Failed code msg info \<Rightarrow> False) \<and>
   all_files flat_parse (item_of flat_source []) flat_source =
     Inr ([\<lparr>name = ''A.sol'', path = ''A.sol'', content = ''contract A {}''\<rparr>], None)"
  by code_simp

text \<open>
  Where the paths of a block's files come from: a key of \<open>parsed.sources\<close> or
  \<open>ContractName.sol\<close>, behind the block's prefix.
\<close>

lemma role_files_paths:
  assumes "role_files parse pre result sc = Inr fs" and "f \<in> set fs"
  shows "(\<exists>parsed sources p. parse (js_substring sc 1 (length sc - 1)) = Some parsed \<and>
            js_get parsed ''sources'' = Inr (Some sources) \<and>
            p \<in> fst ` set (entries sources) \<and> path f = pre @ p) \<or>
         (\<exists>cn. template_string (js_get_opt (Some result) ''ContractName'') = Inr cn \<and>
            path f = pre @ cn @ ''.sol'')"
proof (cases "js_startsWith sc ''{''")
  case False
  with assms show ?thesis
    by (auto simp: role_files_def single_file_def split: sum.splits)
next
  case True
  show ?thesis
  proof (cases "parse (js_substring sc 1 (length sc - 1))")
    case None
    with True assms show ?thesis
      by (auto simp: role_files_def single_file_def split: sum.splits)
  next
    case (Some parsed)
    show ?thesis
    proof (cases "js_get parsed ''sources''")
      case (Inl e)
      with True Some assms show ?thesis
        by (auto simp: role_files_def single_file_def split: sum.splits)
    next
      case (Inr srcs)
      with True Some assms obtain sources where srcs: "srcs = Some sources"
        and fs: "fs = map (source_file pre) (entries sources)"
        by (cases srcs) (auto simp: role_files_def split: if_splits)
      from fs assms(2) obtain e where "e \<in> set (entries sources)" and "f = source_file pre e"
        by auto
      then have "fst e \<in> fst ` set (entries sources)" and "path f = pre @ fst e"
        by (simp_all add: source_file_def)
      with Some Inr srcs show ?thesis by blast
    qed
  qed
qed

subsection \<open>The bundle the handler returns\<close>

text \<open>
  Behind every bundle returned there is the item the explorer reported, its
  \<open>SourceCode\<close>, the settings and the run of \<open>filteredFiles\<close> that produced the
  bundle's files.
\<close>

lemma GET_Resolved_stages:
  assumes "snd (GET cs parse net address chain) = Resolved b"
  shows "\<exists>result sc fs packed u ci k log log1.
           GET_result cs net address chain = Some result \<and>
           js_get_opt (Some result) ''SourceCode'' = Some (JStr sc) \<and> sc \<noteq> [] \<and>
           all_files parse result sc = Inr (fs, packed) \<and>
           (case packed of Some st \<Rightarrow> Inr st | None \<Rightarrow> default_settings result) = Inr (settings b) \<and>
           filtered_files parse net u ci k result sc log = (log1, Inr (files b))"
proof -
  from GET_Resolved [OF assms] obtain result u ci k a log log' where
    r: "GET_result cs net address chain = Some result"
    and rs: "resolve parse net u ci k a result log = (log', Inr (Resolved b))"
    by blast
  from resolve_Resolved [OF rs] r show ?thesis by blast
qed

text \<open>
  C5, as amended. In every bundle returned for a contract that is no proxy, each path
  is a path the explorer's payload reports (a key of \<open>parsed.sources\<close>) or
  \<open>ContractName.sol\<close>: the handler puts no prefix before it, so a path begins with
  \<open>proxy/\<close> or \<open>implementation/\<close> only when the reported path, or the contract's
  name, does.
\<close>

theorem plain_bundle_paths:
  assumes "snd (GET cs parse net address chain) = Resolved b"
  shows "\<exists>result sc.
           GET_result cs net address chain = Some result \<and>
           js_get_opt (Some result) ''SourceCode'' = Some (JStr sc) \<and>
           (isProxy result \<or>
            (\<forall>f \<in> set (files b).
               (\<exists>parsed sources.
                  parse (js_substring sc 1 (length sc - 1)) = Some parsed \<and>
                  js_get parsed ''sources'' = Inr (Some sources) \<and>
                  path f \<in> fst ` set (entries sources)) \<or>
               (\<exists>cn. template_string (js_get_opt (Some result) ''ContractName'') = Inr cn \<and>
                  path f = cn @ ''.sol'')))"
proof -
  from GET_Resolved_stages [OF assms] obtain result sc u ci k log log1 where
    r: "GET_result cs net address chain = Some result"
    and sc: "js_get_opt (Some result) ''SourceCode'' = Some (JStr sc)"
    and ff: "filtered_files parse net u ci k result sc log = (log1, Inr (files b))"
    by blast
  show ?thesis
  proof (cases "isProxy result")
    case True
    with r sc show ?thesis by blast
  next
    case False
    then have "normalizedImplementation result = None"
      by (simp add: isProxy_def)
    with ff have rf: "role_files parse [] result sc = Inr (files b)"
      by (simp add: filtered_files_def io_lift_eq)
    have "(\<exists>parsed sources.
                  parse (js_substring sc 1 (length sc - 1)) = Some parsed \<and>
                  js_get parsed ''sources'' = Inr (Some sources) \<and>
                  path f \<in> fst ` set (entries sources)) \<or>
               (\<exists>cn. template_string (js_get_opt (Some result) ''ContractName'') = Inr cn \<and>
                  path f = cn @ ''.sol'')" if "f \<in> set (files b)" for f
      using role_files_paths [OF rf that] by auto
    with r sc show ?thesis by blast
  qed
qed

text \<open>A run that ends in a bundle: the single-file contract \<open>contract A {}\<close>.\<close>

lemma single_run:
  "(case snd (GET registry no_parse single_net (Some ''0xA'') (Some ''ethereum'')) of
      Resolved b \<Rightarrow> True | Failed code msg info \<Rightarrow> False)"
  by code_simp

text \<open>The theorem of C5 at that run.\<close>

theorem plain_bundle_paths_witness:
  "\<exists>b. snd (GET registry no_parse single_net (Some ''0xA'') (Some ''ethereum'')) = Resolved b \<and>
     (\<exists>result sc.
           GET_result registry single_net (Some ''0xA'') (Some ''ethereum'') = Some result \<and>
           js_get_opt (Some result) ''SourceCode'' = Some (JStr sc) \<and>
           (isProxy result \<or>
            (\<forall>f \<in> set (files b).
               (\<exists>parsed sources.
                  no_parse (js_substring sc 1 (length sc - 1)) = Some parsed \<and>
                  js_get parsed ''sources'' = Inr (Some sources) \<and>
                  path f \<in> fst ` set (entries sources)) \<or>
               (\<exists>cn. template_string (js_get_opt (Some result) ''ContractName'') = Inr cn \<and>
                  path f = cn @ ''.sol''))))"
proof -
  from single_run obtain b where
    run: "snd (GET registry no_parse single_net (Some ''0xA'') (Some ''ethereum'')) = Resolved b"
    by (cases "snd (GET registry no_parse single_net (Some ''0xA'') (Some ''ethereum''))") auto
  from run plain_bundle_paths [OF run] show ?thesis by blast
qed

text \<open>
  C5 as stated fails for the packed payload
  \<open>{{"sources":{"proxy/A.sol":{"content":"contract A {}"}}}}\<close> of a contract that is no
  proxy: the bundle's one path is \<open>proxy/A.sol\<close>.
\<close>

theorem plain_bundle_proxy_path:
  "\<not> isProxy (item_of packed_source []) \<and>
   GET_result registry packed_net (Some ''0xA'') (Some ''ethereum'') = Some (item_of packed_source []) \<and>
   (case snd (GET registry packed_parse packed_net (Some ''0xA'') (Some ''ethereum'')) of
      Resolved b \<Rightarrow> map path (files b) = [''proxy/A.sol''] \<and> js_startsWith ''proxy/A.sol'' ''proxy/''
    | Failed code msg info \<Rightarrow> False)"
  by code_simp

text \<open>
  The list \<open>files\<close> comes with the settings of \<open>packed_settings\<close>; the optimizer
  fields of the default settings.
\<close>

lemma all_files_packed:
  assumes "all_files parse result sc = Inr (fs, packed)"
  shows "packed = packed_settings parse sc"
proof (cases "js_startsWith sc ''{''")
  case False
  with assms show ?thesis
    by (cases "single_file [] result sc") (auto simp: all_files_def packed_settings_def)
next
  case True
  show ?thesis
  proof (cases "parse (js_substring sc 1 (length sc - 1))")
    case None
    with True assms show ?thesis
      by (cases "single_file [] result sc") (auto simp: all_files_def packed_settings_def)
  next
    case (Some parsed)
    show ?thesis
    proof (cases "js_get parsed ''settings''")
      case (Inl e)
      with True Some assms show ?thesis
        by (cases "single_file [] result sc") (auto simp: all_files_def packed_settings_def)
    next
      case (Inr st)
      with True Some assms show ?thesis
        by (cases st)
          (auto simp: all_files_def packed_settings_def Let_def truthy_def
             split: option.splits if_splits)
    qed
  qed
qed

lemma packed_settings_truthy: "packed_settings parse sc = Some st \<Longrightarrow> js_truthy st"
  by (simp add: packed_settings_def split: if_splits option.splits sum.splits)

lemma default_settings_optimizer:
  assumes "default_settings result = Inr d"
  shows "\<exists>rs. template_string (js_get_opt (Some result) ''Runs'') = Inr rs \<and>
           js_get_opt (js_get_opt (Some d) ''optimizer'') ''enabled'' =
             Some (JBool (js_get_opt (Some result) ''OptimizationUsed'' = Some (JStr ''1''))) \<and>
           js_get_opt (js_get_opt (Some d) ''optimizer'') ''runs'' =
             Some (JNum (case parseInt rs of None \<Rightarrow> Finite 200 | Some n \<Rightarrow> if n = Finite 0 then Finite 200 else n))"
proof (cases "template_string (js_get_opt (Some result) ''Runs'')")
  case (Inl e)
  with assms show ?thesis by (simp add: default_settings_def)
next
  case (Inr rs)
  with assms have "d = JObj
            [(''remappings'', JArr []),
             (''optimizer'', JObj
                [(''enabled'', JBool (js_get_opt (Some result) ''OptimizationUsed'' = Some (JStr ''1''))),
                 (''runs'', JNum (case parseInt rs of
                                    None \<Rightarrow> Finite 200
                                  | Some n \<Rightarrow> if n = Finite 0 then Finite 200 else n))]),
             (''metadata'', JObj [(''bytecodeHash'', JStr ''none'')]),
             (''outputSelection'', JObj
                [(''*'', JObj
                   [(''*'', JArr [JStr ''evm.bytecode'', JStr ''evm.deployedBytecode'',
                                  JStr ''devdoc'', JStr ''userdoc'', JStr ''metadata'',
                                  JStr ''abi''])])])]"
    by (simp add: default_settings_def)
  then show ?thesis using Inr by (simp add: js_get_opt_def)
qed

lemma default_settings_not_null: "default_settings result = Inr d \<Longrightarrow> d \<noteq> JNull"
  by (auto simp: default_settings_def split: sum.splits)

text \<open>
  C6. In every bundle returned the settings are not \<open>null\<close>. They are the value under
  \<open>settings\<close> of the packed JSON when the source is packed, parses, and holds a
  settings value (a truthy one: \<open>null\<close>, \<open>false\<close>, \<open>0\<close> and the empty string count as
  none); in every other case they are the default settings, whose \<open>optimizer.enabled\<close>
  says whether \<open>OptimizationUsed\<close> is the string \<open>1\<close> and whose \<open>optimizer.runs\<close> is
  \<open>parseInt(Runs)\<close>, the double that JavaScript reads from the string, or 200 when that
  is \<open>NaN\<close> or 0.
\<close>

theorem settings_present:
  assumes "snd (GET cs parse net address chain) = Resolved b"
  shows "settings b \<noteq> JNull \<and>
         (\<exists>result sc.
            GET_result cs net address chain = Some result \<and>
            js_get_opt (Some result) ''SourceCode'' = Some (JStr sc) \<and>
            (case packed_settings parse sc of
               Some st \<Rightarrow> settings b = st
             | None \<Rightarrow>
                 (\<exists>rs. template_string (js_get_opt (Some result) ''Runs'') = Inr rs \<and>
                    js_get_opt (js_get_opt (Some (settings b)) ''optimizer'') ''enabled'' =
                      Some (JBool (js_get_opt (Some result) ''OptimizationUsed'' = Some (JStr ''1''))) \<and>
                    js_get_opt (js_get_opt (Some (settings b)) ''optimizer'') ''runs'' =
                      Some (JNum (case parseInt rs of None \<Rightarrow> Finite 200 | Some n \<Rightarrow> if n = Finite 0 then Finite 200 else n)))))"
proof -
  from GET_Resolved_stages [OF assms] obtain result sc fs packed where
    r: "GET_result cs net address chain = Some result"
    and sc: "js_get_opt (Some result) ''SourceCode'' = Some (JStr sc)"
    and af: "all_files parse result sc = Inr (fs, packed)"
    and st: "(case packed of Some st \<Rightarrow> Inr st | None \<Rightarrow> default_settings result) = Inr (settings b)"
    by blast
  have pk: "packed = packed_settings parse sc"
    by (rule all_files_packed [OF af])
  have nn: "settings b \<noteq> JNull"
  proof (cases "packed_settings parse sc")
    case None
    with st pk have "default_settings result = Inr (settings b)" by simp
    then show ?thesis by (rule default_settings_not_null)
  next
    case (Some s)
    with st pk have "settings b = s" by simp
    moreover from packed_settings_truthy [OF Some] have "s \<noteq> JNull" by auto
    ultimately show ?thesis by simp
  qed
  have body: "case packed_settings parse sc of
               Some st \<Rightarrow> settings b = st
             | None \<Rightarrow>
                 (\<exists>rs. template_string (js_get_opt (Some result) ''Runs'') = Inr rs \<and>
                    js_get_opt (js_get_opt (Some (settings b)) ''optimizer'') ''enabled'' =
                      Some (JBool (js_get_opt (Some result) ''OptimizationUsed'' = Some (JStr ''1''))) \<and>
                    js_get_opt (js_get_opt (Some (settings b)) ''optimizer'') ''runs'' =
                      Some (JNum (case parseInt rs of None \<Rightarrow> Finite 200 | Some n \<Rightarrow> if n = Finite 0 then Finite 200 else n)))"
  proof (cases "packed_settings parse sc")
    case None
    with st pk have "default_settings result = Inr (settings b)" by simp
    from default_settings_optimizer [OF this] None show ?thesis by simp
  next
    case (Some s)
    with st pk show ?thesis by simp
  qed
  show ?thesis
    apply (intro conjI exI)
       apply (rule nn)
      apply (rule r)
     apply (rule sc)
    apply (rule body)
    done
qed

text \<open>A run that ends in a bundle whose settings come from the packed source.\<close>

lemma settings_run:
  "(case snd (GET registry settings_parse settings_net (Some ''0xA'') (Some ''ethereum'')) of
      Resolved b \<Rightarrow> True | Failed code msg info \<Rightarrow> False)"
  by code_simp

text \<open>
  What \<open>parseInt\<close> and \<open>String\<close> give on sample inputs: past \<open>2 ^ 53\<close> the value read is
  rounded to the nearest double, ties to the even one, and past the largest double it is
  \<open>Infinity\<close>; a number prints with the fewest digits that read back as the same double.
\<close>

lemma parseInt_values:
  "parseInt ''200'' = Some (Finite 200)"
  "parseInt '' 12abc'' = Some (Finite 12)"
  "parseInt ''0x1F'' = Some (Finite 31)"
  "parseInt ''-7'' = Some (Finite (- 7))"
  "parseInt ''0'' = Some (Finite 0)"
  "parseInt ''many'' = None"
  "parseInt [] = None"
  "parseInt ''9007199254740993'' = Some (Finite 9007199254740992)"
  "parseInt ''9007199254740995'' = Some (Finite 9007199254740996)"
  "to_number (2 ^ 1024) = PosInfinity"
  by code_simp+

lemma number_text_values:
  "number_text (Finite 200) = ''200''"
  "number_text (Finite (- 12)) = ''-12''"
  "number_text (Finite 9007199254740992) = ''9007199254740992''"
  "number_text (Finite 12345678901234567168) = ''12345678901234567000''"
  "number_text (Finite 1180591620717411303424) = ''1.1805916207174113e+21''"
  "number_text (Finite 1000000000000000000000) = ''1e+21''"
  "number_text PosInfinity = ''Infinity''"
  by code_simp+

text \<open>
  Two runs on the default settings: \<open>Runs\<close> is \<open>9007199254740993\<close>, which \<open>parseInt\<close>
  rounds to \<open>9007199254740992\<close>, with \<open>OptimizationUsed\<close> \<open>0\<close>; and \<open>Runs\<close> is \<open>many\<close>,
  for which \<open>parseInt\<close> gives \<open>NaN\<close> and the handler takes 200.
\<close>

lemma runs_rounded:
  "(case snd (GET registry no_parse (runs_net ''0'' ''9007199254740993'') (Some ''0xA'') (Some ''ethereum'')) of
      Resolved b \<Rightarrow>
        js_get_opt (js_get_opt (Some (settings b)) ''optimizer'') ''enabled'' = Some (JBool False) \<and>
        js_get_opt (js_get_opt (Some (settings b)) ''optimizer'') ''runs'' =
          Some (JNum (Finite 9007199254740992)) \<and>
        runs b = Some (JNum (Finite 9007199254740992))
    | Failed code msg info \<Rightarrow> False)"
  by code_simp

lemma runs_default:
  "(case snd (GET registry no_parse (runs_net ''1'' ''many'') (Some ''0xA'') (Some ''ethereum'')) of
      Resolved b \<Rightarrow>
        js_get_opt (js_get_opt (Some (settings b)) ''optimizer'') ''enabled'' = Some (JBool True) \<and>
        js_get_opt (js_get_opt (Some (settings b)) ''optimizer'') ''runs'' = Some (JNum (Finite 200)) \<and>
        runs b = Some (JNum (Finite 200))
    | Failed code msg info \<Rightarrow> False)"
  by code_simp

lemma runs_results:
  "GET_result registry (runs_net ''0'' ''9007199254740993'') (Some ''0xA'') (Some ''ethereum'') =
     Some (item_with ''contract A {}'' ''0'' ''9007199254740993'')"
  "GET_result registry (runs_net ''1'' ''many'') (Some ''0xA'') (Some ''ethereum'') =
     Some (item_with ''contract A {}'' ''1'' ''many'')"
  "packed_settings no_parse ''contract A {}'' = None"
  "template_string (js_get_opt (Some (item_with ''contract A {}'' ''0'' ''9007199254740993'')) ''Runs'') =
     Inr ''9007199254740993''"
  "template_string (js_get_opt (Some (item_with ''contract A {}'' ''1'' ''many'')) ''Runs'') = Inr ''many''"
  "js_get_opt (Some (item_with ''contract A {}'' ''0'' ''9007199254740993'')) ''SourceCode'' =
     Some (JStr ''contract A {}'')"
  "js_get_opt (Some (item_with ''contract A {}'' ''1'' ''many'')) ''SourceCode'' =
     Some (JStr ''contract A {}'')"
  "parseInt ''9007199254740993'' = Some (Finite 9007199254740992)"
  "parseInt ''many'' = None"
  by code_simp+

text \<open>
  The theorem of C6 at three runs: the two above, where the theorem itself fixes
  \<open>optimizer.enabled\<close> and \<open>optimizer.runs\<close> of the bundle, and the packed source, whose
  own settings are returned.
\<close>

theorem settings_present_witness:
  "(\<exists>b. snd (GET registry no_parse (runs_net ''0'' ''9007199254740993'') (Some ''0xA'') (Some ''ethereum'')) =
          Resolved b \<and>
        settings b \<noteq> JNull \<and>
        packed_settings no_parse ''contract A {}'' = None \<and>
        js_get_opt (js_get_opt (Some (settings b)) ''optimizer'') ''enabled'' = Some (JBool False) \<and>
        js_get_opt (js_get_opt (Some (settings b)) ''optimizer'') ''runs'' =
          Some (JNum (Finite 9007199254740992))) \<and>
   (\<exists>b. snd (GET registry no_parse (runs_net ''1'' ''many'') (Some ''0xA'') (Some ''ethereum'')) =
          Resolved b \<and>
        settings b \<noteq> JNull \<and>
        js_get_opt (js_get_opt (Some (settings b)) ''optimizer'') ''enabled'' = Some (JBool True) \<and>
        js_get_opt (js_get_opt (Some (settings b)) ''optimizer'') ''runs'' = Some (JNum (Finite 200))) \<and>
   (\<exists>b. snd (GET registry settings_parse settings_net (Some ''0xA'') (Some ''ethereum'')) = Resolved b \<and>
        settings b \<noteq> JNull \<and>
        packed_settings settings_parse settings_source =
          Some (JObj [(''optimizer'', JObj [(''enabled'', JBool False), (''runs'', JNum (Finite 999))])]) \<and>
        settings b = JObj [(''optimizer'', JObj [(''enabled'', JBool False), (''runs'', JNum (Finite 999))])])"
proof -
  let ?g1 = "snd (GET registry no_parse (runs_net ''0'' ''9007199254740993'') (Some ''0xA'') (Some ''ethereum''))"
  let ?g2 = "snd (GET registry no_parse (runs_net ''1'' ''many'') (Some ''0xA'') (Some ''ethereum''))"
  let ?g3 = "snd (GET registry settings_parse settings_net (Some ''0xA'') (Some ''ethereum''))"
  from runs_rounded obtain b1 where run1: "?g1 = Resolved b1"
    by (cases ?g1) auto
  from settings_present [OF run1] obtain result sc where
    nn1: "settings b1 \<noteq> JNull"
    and r1: "GET_result registry (runs_net ''0'' ''9007199254740993'') (Some ''0xA'') (Some ''ethereum'') = Some result"
    and s1: "js_get_opt (Some result) ''SourceCode'' = Some (JStr sc)"
    and c1: "case packed_settings no_parse sc of
               Some st \<Rightarrow> settings b1 = st
             | None \<Rightarrow>
                 (\<exists>rs. template_string (js_get_opt (Some result) ''Runs'') = Inr rs \<and>
                    js_get_opt (js_get_opt (Some (settings b1)) ''optimizer'') ''enabled'' =
                      Some (JBool (js_get_opt (Some result) ''OptimizationUsed'' = Some (JStr ''1''))) \<and>
                    js_get_opt (js_get_opt (Some (settings b1)) ''optimizer'') ''runs'' =
                      Some (JNum (case parseInt rs of None \<Rightarrow> Finite 200 | Some n \<Rightarrow> if n = Finite 0 then Finite 200 else n)))"
    by blast
  from r1 have res1: "result = item_with ''contract A {}'' ''0'' ''9007199254740993''"
    by (simp add: runs_results)
  with s1 have sc1: "sc = ''contract A {}''" by (simp add: runs_results)
  have u1: "js_get_opt (Some (item_with ''contract A {}'' ''0'' ''9007199254740993'')) ''OptimizationUsed'' = Some (JStr ''0'')"
    by code_simp
  from c1 have opt1:
    "js_get_opt (js_get_opt (Some (settings b1)) ''optimizer'') ''enabled'' = Some (JBool False)"
    "js_get_opt (js_get_opt (Some (settings b1)) ''optimizer'') ''runs'' = Some (JNum (Finite 9007199254740992))"
    unfolding res1 sc1 by (simp_all add: runs_results u1)
  from runs_default obtain b2 where run2: "?g2 = Resolved b2"
    by (cases ?g2) auto
  from settings_present [OF run2] obtain result2 sc2 where
    nn2: "settings b2 \<noteq> JNull"
    and r2: "GET_result registry (runs_net ''1'' ''many'') (Some ''0xA'') (Some ''ethereum'') = Some result2"
    and s2: "js_get_opt (Some result2) ''SourceCode'' = Some (JStr sc2)"
    and c2: "case packed_settings no_parse sc2 of
               Some st \<Rightarrow> settings b2 = st
             | None \<Rightarrow>
                 (\<exists>rs. template_string (js_get_opt (Some result2) ''Runs'') = Inr rs \<and>
                    js_get_opt (js_get_opt (Some (settings b2)) ''optimizer'') ''enabled'' =
                      Some (JBool (js_get_opt (Some result2) ''OptimizationUsed'' = Some (JStr ''1''))) \<and>
                    js_get_opt (js_get_opt (Some (settings b2)) ''optimizer'') ''runs'' =
                      Some (JNum (case parseInt rs of None \<Rightarrow> Finite 200 | Some n \<Rightarrow> if n = Finite 0 then Finite 200 else n)))"
    by blast
  from r2 have res2: "result2 = item_with ''contract A {}'' ''1'' ''many''"
    by (simp add: runs_results)
  with s2 have sc2: "sc2 = ''contract A {}''" by (simp add: runs_results)
  have u2: "js_get_opt (Some (item_with ''contract A {}'' ''1'' ''many'')) ''OptimizationUsed'' = Some (JStr ''1'')"
    by code_simp
  from c2 have opt2:
    "js_get_opt (js_get_opt (Some (settings b2)) ''optimizer'') ''enabled'' = Some (JBool True)"
    "js_get_opt (js_get_opt (Some (settings b2)) ''optimizer'') ''runs'' = Some (JNum (Finite 200))"
    unfolding res2 sc2 by (simp_all add: runs_results u2)
  from settings_run obtain b3 where run3: "?g3 = Resolved b3"
    by (cases ?g3) auto
  from settings_present [OF run3] obtain result3 sc3 where
    nn3: "settings b3 \<noteq> JNull"
    and r3: "GET_result registry settings_net (Some ''0xA'') (Some ''ethereum'') = Some result3"
    and s3: "js_get_opt (Some result3) ''SourceCode'' = Some (JStr sc3)"
    and c3: "case packed_settings settings_parse sc3 of
               Some st \<Rightarrow> settings b3 = st
             | None \<Rightarrow>
                 (\<exists>rs. template_string (js_get_opt (Some result3) ''Runs'') = Inr rs \<and>
                    js_get_opt (js_get_opt (Some (settings b3)) ''optimizer'') ''enabled'' =
                      Some (JBool (js_get_opt (Some result3) ''OptimizationUsed'' = Some (JStr ''1''))) \<and>
                    js_get_opt (js_get_opt (Some (settings b3)) ''optimizer'') ''runs'' =
                      Some (JNum (case parseInt rs of None \<Rightarrow> Finite 200 | Some n \<Rightarrow> if n = Finite 0 then Finite 200 else n)))"
    by blast
  have g3: "GET_result registry settings_net (Some ''0xA'') (Some ''ethereum'') = Some (item_of settings_source [])"
    by code_simp
  have g3s: "js_get_opt (Some (item_of settings_source [])) ''SourceCode'' = Some (JStr settings_source)"
    by code_simp
  have some: "packed_settings settings_parse settings_source =
          Some (JObj [(''optimizer'', JObj [(''enabled'', JBool False), (''runs'', JNum (Finite 999))])])"
    by code_simp
  from r3 g3 have res3: "result3 = item_of settings_source []" by simp
  with s3 g3s have sc3: "sc3 = settings_source" by simp
  from c3 have own:
    "settings b3 = JObj [(''optimizer'', JObj [(''enabled'', JBool False), (''runs'', JNum (Finite 999))])]"
    unfolding sc3 some by simp
  have none: "packed_settings no_parse ''contract A {}'' = None" by (rule runs_results)
  from run1 nn1 none opt1 run2 nn2 opt2 run3 nn3 some own show ?thesis by blast
qed

text \<open>
  C1, as amended. For a proxy whose own source was fetched and whose files, settings and
  proxy files were normalized without a throw, when the explorer answers the request for
  the implementation's source with a status other than \<open>1\<close> or without a result item,
  the two ABI requests that follow complete without a throw, and the settings hold an
  \<open>optimizer\<close> that is not \<open>null\<close>, the handler returns the bundle: its files are the
  proxy's files alone, each under \<open>proxy/\<close>, its settings those settings, its
  \<open>optimization\<close> and \<open>runs\<close> read from their \<open>optimizer\<close>, its ABIs the two fetched.
\<close>

theorem proxy_partial_bundle:
  assumes "getApiScanConfig cs c = Some cfg" and "a \<noteq> []" and "c \<noteq> []"
    and "ci = (case getChainId cs c of None \<Rightarrow> [] | Some i \<Rightarrow> i)"
    and "k = effectiveApiKey (scan_apiKey cfg)"
    and "fetchExplorer net (scan_url cfg) ci (explorer_params ''getsourcecode'' a k) [] = (log1, Inr data)"
    and "source_item data = Inr (Some result)"
    and "js_get_opt (Some result) ''SourceCode'' = Some (JStr sc)" and "sc \<noteq> []"
    and "all_files parse result sc = Inr (fs, packed)"
    and "(case packed of Some s \<Rightarrow> Inr s | None \<Rightarrow> default_settings result) = Inr st"
    and "normalizedImplementation result = Some impl"
    and "role_files parse ''proxy/'' result sc = Inr proxyFiles"
    and "fetchExplorer net (scan_url cfg) ci (explorer_params ''getsourcecode'' impl k) log1 = (log2, Inr implData)"
    and "source_item implData = Inr None"
    and "fetch_abi parse net (scan_url cfg) ci k a log2 = (log3, Inr contractABI)"
    and "fetch_abi parse net (scan_url cfg) ci k impl log3 = (log4, Inr implementationABI)"
    and "js_get_opt (Some st) ''optimizer'' = Some opt" and "opt \<noteq> JNull"
  shows "GET cs parse net (Some a) (Some c) =
           (log4, Resolved
              \<lparr>files = proxyFiles, settings = st,
               contractName = js_get_opt (Some result) ''ContractName'',
               compiler = js_get_opt (Some result) ''CompilerVersion'',
               optimization = js_get_opt (Some opt) ''enabled'',
               runs = js_get_opt (Some opt) ''runs'',
               abi = contractABI, implementationAbi = implementationABI\<rparr>) \<and>
         (\<forall>f \<in> set proxyFiles. js_startsWith (path f) ''proxy/'')"
proof -
  let ?b = "\<lparr>files = proxyFiles, settings = st,
               contractName = js_get_opt (Some result) ''ContractName'',
               compiler = js_get_opt (Some result) ''CompilerVersion'',
               optimization = js_get_opt (Some opt) ''enabled'',
               runs = js_get_opt (Some opt) ''runs'',
               abi = contractABI, implementationAbi = implementationABI\<rparr>"
  have st: "st \<noteq> JNull"
    using assms(18) by (auto simp: js_get_opt_def)
  then have o1: "js_get st ''optimizer'' = Inr (Some opt)"
    using assms(18) by (cases st) (simp_all add: js_get_def js_get_opt_def)
  have o2: "js_get opt ''enabled'' = Inr (js_get_opt (Some opt) ''enabled'')"
    and o3: "js_get opt ''runs'' = Inr (js_get_opt (Some opt) ''runs'')"
    using assms(19) by (cases opt; simp add: js_get_def js_get_opt_def)+
  have bo: "bundle_of proxyFiles st result contractABI implementationABI = Inr ?b"
    using o1 o2 o3 by (simp add: bundle_of_def)
  have ff: "filtered_files parse net (scan_url cfg) ci k result sc log1 = (log2, Inr proxyFiles)"
    using assms(12-15) by (simp add: filtered_files_def io_bind_def io_lift_def)
  have rs: "resolve parse net (scan_url cfg) ci k a result log1 = (log4, Inr (Resolved ?b))"
    using assms(8-12,16,17) bo ff by (simp add: resolve_def io_bind_def io_lift_def)
  have "GET_try parse net cfg ci a [] = (log4, Inr (Resolved ?b))"
    using assms(5-7) rs by (simp add: GET_try_def io_bind_def io_lift_def)
  then have get: "GET cs parse net (Some a) (Some c) = (log4, Resolved ?b)"
    using assms(1-4) by (simp add: GET_def)
  have "js_startsWith (path f) ''proxy/''" if "f \<in> set proxyFiles" for f
    using role_files_paths [OF assms(13) that] js_startsWith_append [of "''proxy/''"]
    by auto
  with get show ?thesis by simp
qed

text \<open>
  The theorem of C1 at a run: the proxy at \<open>0xA\<close> reports the implementation \<open>0xB\<close>,
  for which the explorer answers \<open>NOTOK\<close>.
\<close>

theorem proxy_partial_bundle_witness:
  "\<exists>log1 log2 log3 log4 st.
     getApiScanConfig registry ''ethereum'' =
       Some \<lparr>scan_url = ''https://api.etherscan.io/api'', scan_apiKey = None\<rparr> \<and>
     fetchExplorer partial_net ''https://api.etherscan.io/api'' ''1''
       (explorer_params ''getsourcecode'' ''0xA'' ''YourApiKeyToken'') [] =
       (log1, Inr (ok_response (JArr [proxy_item]))) \<and>
     source_item (ok_response (JArr [proxy_item])) = Inr (Some proxy_item) \<and>
     js_get_opt (Some proxy_item) ''SourceCode'' = Some (JStr ''contract P {}'') \<and>
     all_files no_parse proxy_item ''contract P {}'' =
       Inr ([\<lparr>name = ''A.sol'', path = ''A.sol'', content = ''contract P {}''\<rparr>], None) \<and>
     default_settings proxy_item = Inr st \<and>
     normalizedImplementation proxy_item = Some ''0xB'' \<and>
     role_files no_parse ''proxy/'' proxy_item ''contract P {}'' =
       Inr [\<lparr>name = ''A.sol'', path = ''proxy/A.sol'', content = ''contract P {}''\<rparr>] \<and>
     fetchExplorer partial_net ''https://api.etherscan.io/api'' ''1''
       (explorer_params ''getsourcecode'' ''0xB'' ''YourApiKeyToken'') log1 =
       (log2, Inr (not_ok ''Contract source code not verified'')) \<and>
     source_item (not_ok ''Contract source code not verified'') = Inr None \<and>
     fetch_abi no_parse partial_net ''https://api.etherscan.io/api'' ''1'' ''YourApiKeyToken'' ''0xA'' log2 =
       (log3, Inr (JArr [])) \<and>
     fetch_abi no_parse partial_net ''https://api.etherscan.io/api'' ''1'' ''YourApiKeyToken'' ''0xB'' log3 =
       (log4, Inr (JArr [])) \<and>
     js_get_opt (Some st) ''optimizer'' =
       Some (JObj [(''enabled'', JBool True), (''runs'', JNum (Finite 200))]) \<and>
     GET registry no_parse partial_net (Some ''0xA'') (Some ''ethereum'') =
       (log4, Resolved
          \<lparr>files = [\<lparr>name = ''A.sol'', path = ''proxy/A.sol'', content = ''contract P {}''\<rparr>],
           settings = st, contractName = Some (JStr ''A''),
           compiler = Some (JStr ''v0.8.20+commit.a1b79de6''),
           optimization = Some (JBool True), runs = Some (JNum (Finite 200)),
           abi = JArr [], implementationAbi = JArr []\<rparr>) \<and>
     js_startsWith ''proxy/A.sol'' ''proxy/''"
proof -
  let ?u = "''https://api.etherscan.io/api''"
  let ?k = "''YourApiKeyToken''"
  let ?cfg = "\<lparr>scan_url = ?u, scan_apiKey = None\<rparr>"
  let ?r1 = "\<lparr>req_base = ?u, req_params = explorer_params ''getsourcecode'' ''0xA'' ?k\<rparr>"
  let ?r2 = "\<lparr>req_base = ?u, req_params = explorer_params ''getsourcecode'' ''0xB'' ?k\<rparr>"
  let ?r3 = "\<lparr>req_base = ?u, req_params = explorer_params ''getabi'' ''0xA'' ?k\<rparr>"
  let ?r4 = "\<lparr>req_base = ?u, req_params = explorer_params ''getabi'' ''0xB'' ?k\<rparr>"
  let ?pf = "[\<lparr>name = ''A.sol'', path = ''proxy/A.sol'', content = ''contract P {}''\<rparr>]"
  let ?opt = "JObj [(''enabled'', JBool True), (''runs'', JNum (Finite 200))]"
  let ?st = "JObj
            [(''remappings'', JArr []),
             (''optimizer'', ?opt),
             (''metadata'', JObj [(''bytecodeHash'', JStr ''none'')]),
             (''outputSelection'', JObj
                [(''*'', JObj
                   [(''*'', JArr [JStr ''evm.bytecode'', JStr ''evm.deployedBytecode'',
                                  JStr ''devdoc'', JStr ''userdoc'', JStr ''metadata'',
                                  JStr ''abi''])])])]"
  have h1: "getApiScanConfig registry ''ethereum'' = Some ?cfg" by code_simp
  have h2: "''0xA'' \<noteq> []" by simp
  have h3: "''ethereum'' \<noteq> []" by simp
  have h4: "''1'' = (case getChainId registry ''ethereum'' of None \<Rightarrow> [] | Some i \<Rightarrow> i)" by code_simp
  have h5: "?k = effectiveApiKey (scan_apiKey ?cfg)" by code_simp
  have h6: "fetchExplorer partial_net (scan_url ?cfg) ''1'' (explorer_params ''getsourcecode'' ''0xA'' ?k) [] =
              ([?r1], Inr (ok_response (JArr [proxy_item])))" by code_simp
  have h7: "source_item (ok_response (JArr [proxy_item])) = Inr (Some proxy_item)" by code_simp
  have h8: "js_get_opt (Some proxy_item) ''SourceCode'' = Some (JStr ''contract P {}'')" by code_simp
  have h9: "''contract P {}'' \<noteq> []" by simp
  have h10: "all_files no_parse proxy_item ''contract P {}'' =
       Inr ([\<lparr>name = ''A.sol'', path = ''A.sol'', content = ''contract P {}''\<rparr>], None)" by code_simp
  have h11: "(case None of Some s \<Rightarrow> Inr s | None \<Rightarrow> default_settings proxy_item) = Inr ?st" by code_simp
  have h12: "normalizedImplementation proxy_item = Some ''0xB''" by code_simp
  have h13: "role_files no_parse ''proxy/'' proxy_item ''contract P {}'' = Inr ?pf" by code_simp
  have h14: "fetchExplorer partial_net (scan_url ?cfg) ''1'' (explorer_params ''getsourcecode'' ''0xB'' ?k) [?r1] =
       ([?r1, ?r2], Inr (not_ok ''Contract source code not verified''))" by code_simp
  have h15: "source_item (not_ok ''Contract source code not verified'') = Inr None" by code_simp
  have h16: "fetch_abi no_parse partial_net (scan_url ?cfg) ''1'' ?k ''0xA'' [?r1, ?r2] =
       ([?r1, ?r2, ?r3], Inr (JArr []))" by code_simp
  have h17: "fetch_abi no_parse partial_net (scan_url ?cfg) ''1'' ?k ''0xB'' [?r1, ?r2, ?r3] =
       ([?r1, ?r2, ?r3, ?r4], Inr (JArr []))" by code_simp
  have h18: "js_get_opt (Some ?st) ''optimizer'' = Some ?opt" by code_simp
  have h19: "?opt \<noteq> JNull" by simp
  note w = proxy_partial_bundle [OF h1 h2 h3 h4 h5 h6 h7 h8 h9 h10 h11 h12 h13 h14 h15 h16 h17 h18 h19]
  have d: "default_settings proxy_item = Inr ?st" using h11 by simp
  have e1: "js_get_opt (Some proxy_item) ''ContractName'' = Some (JStr ''A'')" by code_simp
  have e2: "js_get_opt (Some proxy_item) ''CompilerVersion'' = Some (JStr ''v0.8.20+commit.a1b79de6'')"
    by code_simp
  have e3: "js_get_opt (Some ?opt) ''enabled'' = Some (JBool True)" by code_simp
  have e4: "js_get_opt (Some ?opt) ''runs'' = Some (JNum (Finite 200))" by code_simp
  show ?thesis
    apply (rule exI [of _ "[?r1]"])
    apply (rule exI [of _ "[?r1, ?r2]"])
    apply (rule exI [of _ "[?r1, ?r2, ?r3]"])
    apply (rule exI [of _ "[?r1, ?r2, ?r3, ?r4]"])
    apply (rule exI [of _ ?st])
    using h1 h6 h7 h8 h10 d h12 h13 h14 h15 h16 h17 h18 w
    apply (simp only: ScanConfig.simps simp_thms e1 e2 e3 e4)
    apply simp
    done
qed

text \<open>
  C1 as stated fails in two ways. When the fetch of the implementation's source itself
  fails, the error reaches the \<open>catch\<close> of the handler, which answers 500 although the
  proxy's files were ready. And when the explorer answers \<open>NOTOK\<close> for the
  implementation but the proxy's packed settings have no \<open>optimizer\<close>, reading
  \<open>settings.optimizer.enabled\<close> for the response throws after all four requests were
  answered, and the handler answers 500 as well.
\<close>

theorem proxy_fetch_error_fails:
  "isProxy proxy_item \<and>
   GET_result registry failing_net (Some ''0xA'') (Some ''ethereum'') = Some proxy_item \<and>
   role_files no_parse ''proxy/'' proxy_item ''contract P {}'' =
     Inr [\<lparr>name = ''A.sol'', path = ''proxy/A.sol'', content = ''contract P {}''\<rparr>] \<and>
   snd (GET registry no_parse failing_net (Some ''0xA'') (Some ''ethereum'')) =
     Failed 500 ''Failed to fetch contract source'' None \<and>
   isProxy (item_of bare_source ''0xB'') \<and>
   GET_result registry bare_net (Some ''0xA'') (Some ''ethereum'') = Some (item_of bare_source ''0xB'') \<and>
   role_files bare_parse ''proxy/'' (item_of bare_source ''0xB'') bare_source =
     Inr [\<lparr>name = ''P.sol'', path = ''proxy/P.sol'', content = ''contract P {}''\<rparr>] \<and>
   source_item (not_ok ''Contract source code not verified'') = Inr None \<and>
   length (fst (GET registry bare_parse bare_net (Some ''0xA'') (Some ''ethereum''))) = 4 \<and>
   snd (GET registry bare_parse bare_net (Some ''0xA'') (Some ''ethereum'')) =
     Failed 500 ''Failed to fetch contract source'' None"
  by code_simp

subsection \<open>The inference call\<close>

lemma getNeversightModelById_None:
  "getNeversightModelById v = None \<longleftrightarrow> (\<forall>m \<in> set NEVERSIGHT_MODELS. v \<noteq> Some (JStr (model_id m)))"
  by (auto simp: getNeversightModelById_def find_None_iff)

lemma js_get_Inr: "js_get v k = Inr r \<Longrightarrow> r = js_get_opt (Some v) k"
  by (cases v) (simp_all add: js_get_def js_get_opt_def)

text \<open>
  C8. \<open>analyzeWithAI\<close> ends in an error, having sent no request, when no configuration
  is stored, when its \<open>selectedModel\<close> is not the id of a registered model, and when
  its \<open>apiKey\<close> is absent or trims to the empty string. A request that is sent
  carries the stored key, trimmed and not empty: no default stands in for it. The
  explorer requests, for their part, carry \<open>YourApiKeyToken\<close> when no key is configured.
\<close>

theorem analyzeWithAI_preconditions:
  "((storage = None \<or> storage = Some [] \<or>
     (\<exists>s config. storage = Some s \<and> parse s = Some config \<and>
        ((\<forall>m \<in> set NEVERSIGHT_MODELS.
            js_get_opt (Some config) ''selectedModel'' \<noteq> Some (JStr (model_id m))) \<or>
         js_get_opt (Some config) ''apiKey'' = None \<or>
         js_get_opt (Some config) ''apiKey'' = Some JNull \<or>
         (\<exists>k. js_get_opt (Some config) ''apiKey'' = Some (JStr k) \<and> js_trim k = [])))) \<longrightarrow>
    fst (analyzeWithAI parse storage infer prompt) = [] \<and>
    isl (snd (analyzeWithAI parse storage infer prompt))) \<and>
   (\<forall>r \<in> set (fst (analyzeWithAI parse storage infer prompt)).
      \<exists>s config k. storage = Some s \<and> parse s = Some config \<and>
        js_get_opt (Some config) ''apiKey'' = Some (JStr k) \<and> js_trim k \<noteq> [] \<and>
        authorization r = ''Bearer '' @ js_trim k) \<and>
   map_of (explorer_params action address (effectiveApiKey None)) ''apikey'' = Some ''YourApiKeyToken'' \<and>
   map_of (explorer_params action address (effectiveApiKey (Some []))) ''apikey'' = Some ''YourApiKeyToken''"
proof (intro conjI impI ballI)
  assume h: "storage = None \<or> storage = Some [] \<or>
     (\<exists>s config. storage = Some s \<and> parse s = Some config \<and>
        ((\<forall>m \<in> set NEVERSIGHT_MODELS.
            js_get_opt (Some config) ''selectedModel'' \<noteq> Some (JStr (model_id m))) \<or>
         js_get_opt (Some config) ''apiKey'' = None \<or>
         js_get_opt (Some config) ''apiKey'' = Some JNull \<or>
         (\<exists>k. js_get_opt (Some config) ''apiKey'' = Some (JStr k) \<and> js_trim k = [])))"
  have "fst (analyzeWithAI parse storage infer prompt) = [] \<and>
    isl (snd (analyzeWithAI parse storage infer prompt))"
  proof (cases storage)
    case None
    then show ?thesis by (simp add: analyzeWithAI_def)
  next
    case (Some s)
    show ?thesis
    proof (cases "s = []")
      case True
      with Some show ?thesis by (simp add: analyzeWithAI_def)
    next
      case False
      with Some h obtain config where c: "parse s = Some config"
        and bad: "(\<forall>m \<in> set NEVERSIGHT_MODELS.
            js_get_opt (Some config) ''selectedModel'' \<noteq> Some (JStr (model_id m))) \<or>
         js_get_opt (Some config) ''apiKey'' = None \<or>
         js_get_opt (Some config) ''apiKey'' = Some JNull \<or>
         (\<exists>k. js_get_opt (Some config) ''apiKey'' = Some (JStr k) \<and> js_trim k = [])"
        by auto
      show ?thesis
      proof (cases "js_get config ''selectedModel''")
        case (Inl e)
        with Some False c show ?thesis by (simp add: analyzeWithAI_def)
      next
        case (Inr sel)
        then have sel: "sel = js_get_opt (Some config) ''selectedModel''" by (rule js_get_Inr)
        show ?thesis
        proof (cases "getNeversightModelById sel")
          case None
          with Some False c Inr show ?thesis by (simp add: analyzeWithAI_def)
        next
          case (Some model)
          then have "\<not> (\<forall>m \<in> set NEVERSIGHT_MODELS. sel \<noteq> Some (JStr (model_id m)))"
            using getNeversightModelById_None [of sel] by simp
          with sel bad have key: "js_get_opt (Some config) ''apiKey'' = None \<or>
              js_get_opt (Some config) ''apiKey'' = Some JNull \<or>
              (\<exists>k. js_get_opt (Some config) ''apiKey'' = Some (JStr k) \<and> js_trim k = [])"
            by blast
          then have "trimmed_apiKey config = Inr None \<or> trimmed_apiKey config = Inr (Some [])"
            by (auto simp: trimmed_apiKey_def)
          with \<open>storage = Some s\<close> False c Inr Some show ?thesis
            by (auto simp: analyzeWithAI_def)
        qed
      qed
    qed
  qed
  then show "fst (analyzeWithAI parse storage infer prompt) = []"
    and "isl (snd (analyzeWithAI parse storage infer prompt))" by simp_all
next
  fix r
  assume "r \<in> set (fst (analyzeWithAI parse storage infer prompt))"
  then show "\<exists>s config k. storage = Some s \<and> parse s = Some config \<and>
        js_get_opt (Some config) ''apiKey'' = Some (JStr k) \<and> js_trim k \<noteq> [] \<and>
        authorization r = ''Bearer '' @ js_trim k"
    by (auto simp: analyzeWithAI_def trimmed_apiKey_def Let_def
          split: option.splits if_splits sum.splits json.splits)
next
  show "map_of (explorer_params action address (effectiveApiKey None)) ''apikey'' = Some ''YourApiKeyToken''"
    by (simp add: explorer_params_def effectiveApiKey_def)
  show "map_of (explorer_params action address (effectiveApiKey (Some []))) ''apikey'' = Some ''YourApiKeyToken''"
    by (simp add: explorer_params_def effectiveApiKey_def)
qed

text \<open>
  The theorem of C8 at three runs: a blank key, no stored configuration, and the key
  \<open>sk-1\<close>, which is the one sent.
\<close>

theorem analyzeWithAI_preconditions_witness:
  "config_parse blank_key_text = Some (config_of ''  '') \<and>
   js_get_opt (Some (config_of ''  '')) ''apiKey'' = Some (JStr ''  '') \<and> js_trim ''  '' = [] \<and>
   fst (analyzeWithAI config_parse (Some blank_key_text) (answering (completion_body ''report'')) ''audit'') = [] \<and>
   isl (snd (analyzeWithAI config_parse (Some blank_key_text) (answering (completion_body ''report'')) ''audit'')) \<and>
   fst (analyzeWithAI config_parse None (answering (completion_body ''report'')) ''audit'') = [] \<and>
   isl (snd (analyzeWithAI config_parse None (answering (completion_body ''report'')) ''audit'')) \<and>
   fst (analyzeWithAI config_parse (Some config_text) (answering (completion_body ''report'')) ''audit'') =
     [\<lparr>authorization = ''Bearer sk-1'', body_model = ''openai/gpt-5.2'', body_user = ''audit''\<rparr>] \<and>
   (\<exists>s config k. Some config_text = Some s \<and> config_parse s = Some config \<and>
        js_get_opt (Some config) ''apiKey'' = Some (JStr k) \<and> js_trim k \<noteq> [] \<and>
        ''Bearer sk-1'' = ''Bearer '' @ js_trim k) \<and>
   map_of (explorer_params ''getsourcecode'' ''0xA'' (effectiveApiKey None)) ''apikey'' = Some ''YourApiKeyToken''"
proof -
  let ?ok = "answering (completion_body ''report'')"
  have p: "config_parse blank_key_text = Some (config_of ''  '')" by code_simp
  have k: "js_get_opt (Some (config_of ''  '')) ''apiKey'' = Some (JStr ''  '')" by code_simp
  have t: "js_trim ''  '' = []" by code_simp
  have blank: "fst (analyzeWithAI config_parse (Some blank_key_text) ?ok ''audit'') = [] \<and>
     isl (snd (analyzeWithAI config_parse (Some blank_key_text) ?ok ''audit''))"
    using analyzeWithAI_preconditions [of "Some blank_key_text" config_parse ?ok "''audit''" "''getsourcecode''" "''0xA''"]
      p k t by blast
  have absent: "fst (analyzeWithAI config_parse None ?ok ''audit'') = [] \<and>
     isl (snd (analyzeWithAI config_parse None ?ok ''audit''))"
    using analyzeWithAI_preconditions [of None config_parse ?ok "''audit''" "''getsourcecode''" "''0xA''"]
    by blast
  have sent: "fst (analyzeWithAI config_parse (Some config_text) ?ok ''audit'') =
     [\<lparr>authorization = ''Bearer sk-1'', body_model = ''openai/gpt-5.2'', body_user = ''audit''\<rparr>]"
    by code_simp
  have key: "\<exists>s config k. Some config_text = Some s \<and> config_parse s = Some config \<and>
        js_get_opt (Some config) ''apiKey'' = Some (JStr k) \<and> js_trim k \<noteq> [] \<and>
        ''Bearer sk-1'' = ''Bearer '' @ js_trim k"
    using analyzeWithAI_preconditions [of "Some config_text" config_parse ?ok "''audit''" "''getsourcecode''" "''0xA''"]
      sent by simp
  have placeholder: "map_of (explorer_params ''getsourcecode'' ''0xA'' (effectiveApiKey None)) ''apikey'' = Some ''YourApiKeyToken''"
    using analyzeWithAI_preconditions [of None config_parse ?ok "''audit''" "''getsourcecode''" "''0xA''"]
    by blast
  from p k t blank absent sent key placeholder show ?thesis by blast
qed

text \<open>What \<open>analyzeWithAI\<close> returns once the request is sent, and what \<open>read_reply\<close> accepts.\<close>

lemma analyzeWithAI_cases:
  "analyzeWithAI parse storage infer prompt = (log, r) \<Longrightarrow>
     (log = [] \<and> isl r) \<or> (\<exists>req. log = [req] \<and> r = read_reply (infer req))"
  by (auto simp: analyzeWithAI_def Let_def split: option.splits if_splits sum.splits)

lemma read_reply_Inr:
  "read_reply r = Inr c \<Longrightarrow>
     c \<noteq> [] \<and> (\<exists>reply data. r = Some reply \<and> reply_ok reply \<and> reply_json reply = Some data \<and>
                   completion data = Some (JStr c))"
  by (auto simp: read_reply_def split: option.splits if_splits json.splits)

lemma read_reply_malformed:
  "reply_ok reply \<Longrightarrow> reply_json reply = Some data \<Longrightarrow>
   \<forall>c. completion data = Some (JStr c) \<longrightarrow> c = [] \<Longrightarrow>
   read_reply (Some reply) = Inl UnexpectedFormat"
  by (auto simp: read_reply_def split: option.splits json.splits)

lemma analyzeWithAI_unexpected:
  "analyzeWithAI parse storage infer prompt = (log, Inl UnexpectedFormat) \<Longrightarrow>
     \<exists>req. log = [req] \<and> read_reply (infer req) = Inl UnexpectedFormat"
  by (auto simp: analyzeWithAI_def Let_def split: option.splits if_splits sum.splits)

lemma read_reply_unexpected:
  "read_reply r = Inl UnexpectedFormat \<Longrightarrow>
     \<exists>reply data. r = Some reply \<and> reply_ok reply \<and> reply_json reply = Some data \<and>
                  (\<forall>c. completion data = Some (JStr c) \<longrightarrow> c = [])"
  by (auto simp: read_reply_def split: option.splits if_splits json.splits)

text \<open>
  C9. \<open>analyzeWithAI\<close> returns a string only when the reply is \<open>ok\<close>, its body decodes
  and \<open>choices[0].message.content\<close> is a string that is not empty, and it returns that
  string. When the decoded body of an \<open>ok\<close> reply has no string there, or the empty
  string, the error is \<open>UnexpectedFormat\<close>; and that error is thrown for no other
  reason.
\<close>

theorem analyzeWithAI_completion:
  "(case snd (analyzeWithAI parse storage infer prompt) of
      Inl e \<Rightarrow> True
    | Inr c \<Rightarrow>
        c \<noteq> [] \<and>
        (\<exists>req reply data.
           fst (analyzeWithAI parse storage infer prompt) = [req] \<and> infer req = Some reply \<and>
           reply_ok reply \<and> reply_json reply = Some data \<and> completion data = Some (JStr c))) \<and>
   (\<forall>req reply data.
      fst (analyzeWithAI parse storage infer prompt) = [req] \<and> infer req = Some reply \<and>
      reply_ok reply \<and> reply_json reply = Some data \<and>
      (\<forall>c. completion data = Some (JStr c) \<longrightarrow> c = []) \<longrightarrow>
      snd (analyzeWithAI parse storage infer prompt) = Inl UnexpectedFormat) \<and>
   (snd (analyzeWithAI parse storage infer prompt) = Inl UnexpectedFormat \<longrightarrow>
      (\<exists>req reply data.
         fst (analyzeWithAI parse storage infer prompt) = [req] \<and> infer req = Some reply \<and>
         reply_ok reply \<and> reply_json reply = Some data \<and>
         (\<forall>c. completion data = Some (JStr c) \<longrightarrow> c = [])))"
proof -
  obtain log r where run: "analyzeWithAI parse storage infer prompt = (log, r)"
    by (cases "analyzeWithAI parse storage infer prompt")
  note cs = analyzeWithAI_cases [OF run]
  have first: "case r of
      Inl e \<Rightarrow> True
    | Inr c \<Rightarrow>
        c \<noteq> [] \<and>
        (\<exists>req reply data. log = [req] \<and> infer req = Some reply \<and>
           reply_ok reply \<and> reply_json reply = Some data \<and> completion data = Some (JStr c))"
  proof (cases r)
    case (Inl e)
    then show ?thesis by simp
  next
    case (Inr c)
    with cs obtain req where "log = [req]" and "read_reply (infer req) = Inr c"
      by auto
    with read_reply_Inr [of "infer req" c] Inr show ?thesis by auto
  qed
  have second: "r = Inl UnexpectedFormat"
    if "log = [req]" "infer req = Some reply" "reply_ok reply" "reply_json reply = Some data"
       "\<forall>c. completion data = Some (JStr c) \<longrightarrow> c = []" for req reply data
  proof -
    from cs that(1) have "r = read_reply (infer req)" by auto
    with that(2) read_reply_malformed [OF that(3,4,5)] show ?thesis by simp
  qed
  have third: "\<exists>req reply data. log = [req] \<and> infer req = Some reply \<and>
         reply_ok reply \<and> reply_json reply = Some data \<and>
         (\<forall>c. completion data = Some (JStr c) \<longrightarrow> c = [])"
    if "r = Inl UnexpectedFormat"
  proof -
    from analyzeWithAI_unexpected [OF run [unfolded that]] obtain req where
      "log = [req]" and "read_reply (infer req) = Inl UnexpectedFormat" by blast
    with read_reply_unexpected [of "infer req"] show ?thesis by blast
  qed
  from first second third show ?thesis
    unfolding run by (simp only: fst_conv snd_conv) blast
qed

text \<open>
  The theorem of C9 at the run whose reply holds the empty completion, beside the run
  whose reply holds \<open>report\<close>.
\<close>

theorem analyzeWithAI_completion_witness:
  "fst (analyzeWithAI config_parse (Some config_text) (answering (completion_body [])) ''audit'') =
     [\<lparr>authorization = ''Bearer sk-1'', body_model = ''openai/gpt-5.2'', body_user = ''audit''\<rparr>] \<and>
   completion (completion_body []) = Some (JStr []) \<and>
   snd (analyzeWithAI config_parse (Some config_text) (answering (completion_body [])) ''audit'') =
     Inl UnexpectedFormat \<and>
   completion (completion_body ''report'') = Some (JStr ''report'') \<and>
   snd (analyzeWithAI config_parse (Some config_text) (answering (completion_body ''report'')) ''audit'') =
     Inr ''report''"
proof -
  let ?req = "\<lparr>authorization = ''Bearer sk-1'', body_model = ''openai/gpt-5.2'', body_user = ''audit''\<rparr>"
  let ?reply = "\<lparr>reply_ok = True, reply_status = 200, reply_statusText = ''OK'', reply_text = [],
                 reply_json = Some (completion_body [])\<rparr>"
  have sent: "fst (analyzeWithAI config_parse (Some config_text) (answering (completion_body [])) ''audit'') = [?req]"
    by code_simp
  have reply: "answering (completion_body []) ?req = Some ?reply"
    by (simp add: answering_def)
  have empty: "completion (completion_body []) = Some (JStr [])" by code_simp
  have report: "completion (completion_body ''report'') = Some (JStr ''report'')" by code_simp
  have malformed: "snd (analyzeWithAI config_parse (Some config_text) (answering (completion_body [])) ''audit'') =
     Inl UnexpectedFormat"
    using analyzeWithAI_completion [of config_parse "Some config_text" "answering (completion_body [])" "''audit''",
        THEN conjunct2, THEN conjunct1, rule_format, of ?req ?reply "completion_body []"]
      sent reply empty by simp
  have good: "snd (analyzeWithAI config_parse (Some config_text) (answering (completion_body ''report'')) ''audit'') =
     Inr ''report''"
    by code_simp
  from sent empty malformed report good show ?thesis by simp
qed

end
